theory Spec2Isabelle
  imports Complex_Main "HOL-Library.Word"
begin

text \<open>
  The backend of the flashcard service: a model of the server file that defines
  \<open>extractText\<close>, \<open>generateFlashcardsAI\<close>, \<open>generateQuizAI\<close> and the two routes
  \<open>/api/generate\<close> and \<open>/api/generate-quiz\<close>, to whose lines the comments refer. Strings,
  parsed JSON values and thrown errors are values; the calls of the language model, of
  \<open>JSON.parse\<close> and of the HTTP client, and the warnings written to the console, are
  recorded as the effects of a run. The model, the HTTP client, the document parsers and
  \<open>JSON.parse\<close> are parameters.
\<close>

section \<open>JavaScript strings, numbers and JSON values\<close>

text \<open>
  A JavaScript string is a sequence of UTF-16 code units; \<open>length\<close>, \<open>substring\<close>,
  \<open>indexOf\<close> and \<open>trim\<close> all count code units. A string is modelled as the list of
  its code units, each a natural number below 65536. \<open>lit\<close> turns an ASCII literal into
  such a list; code units outside printable ASCII are written as numbers (252 is u-umlaut,
  246 o-umlaut, 228 a-umlaut, 223 sharp s, 10 line feed, 34 the double quote, 39 the
  apostrophe).
\<close>

type_synonym jsstr = "nat list"

definition lit :: "string \<Rightarrow> jsstr" where
  "lit s = map of_char s"

text \<open>
  White space as \<open>String.prototype.trim\<close> and the regular expression class \<open>\s\<close> see it:
  the ECMAScript WhiteSpace and LineTerminator code points.
\<close>

definition is_white_space :: "nat \<Rightarrow> bool" where
  "is_white_space c \<longleftrightarrow>
     c \<in> {9, 10, 11, 12, 13, 32, 160, 5760, 8232, 8233, 8239, 8287, 12288, 65279}
     \<or> (8192 \<le> c \<and> c \<le> 8202)"

definition trimStart :: "jsstr \<Rightarrow> jsstr" where
  "trimStart s = dropWhile is_white_space s"

definition trim :: "jsstr \<Rightarrow> jsstr" where
  "trim s = rev (dropWhile is_white_space (rev (dropWhile is_white_space s)))"

text \<open>\<open>s.indexOf(c)\<close> and \<open>s.lastIndexOf(c)\<close> for a one-unit search string: an index, or -1.\<close>

fun indexOf :: "jsstr \<Rightarrow> nat \<Rightarrow> int" where
  "indexOf [] c = - 1"
| "indexOf (x # xs) c =
     (if x = c then 0 else if indexOf xs c = - 1 then - 1 else indexOf xs c + 1)"

definition lastIndexOf :: "jsstr \<Rightarrow> nat \<Rightarrow> int" where
  "lastIndexOf s c =
     (if indexOf (rev s) c = - 1 then - 1 else int (length s) - 1 - indexOf (rev s) c)"

text \<open>
  \<open>s.substring(a, b)\<close>: both arguments are clamped into \<open>[0, s.length]\<close> and swapped when
  the first is the larger.
\<close>

definition substring :: "jsstr \<Rightarrow> int \<Rightarrow> int \<Rightarrow> jsstr" where
  "substring s a b =
     (let len = int (length s);
          a' = min (max a 0) len;
          b' = min (max b 0) len;
          lo = min a' b';
          hi = max a' b'
      in take (nat (hi - lo)) (drop (nat lo) s))"

definition startsWith :: "jsstr \<Rightarrow> jsstr \<Rightarrow> bool" where
  "startsWith s p \<longleftrightarrow> take (length p) s = p"

definition endsWith :: "jsstr \<Rightarrow> jsstr \<Rightarrow> bool" where
  "endsWith s p \<longleftrightarrow> startsWith (rev s) (rev p)"

fun includes_js :: "jsstr \<Rightarrow> jsstr \<Rightarrow> bool" where
  "includes_js [] p = (p = [])"
| "includes_js (x # xs) p = (startsWith (x # xs) p \<or> includes_js xs p)"

text \<open>Template-literal interpolation of an integer: its decimal digits.\<close>

fun digits :: "nat \<Rightarrow> jsstr" where
  "digits n = (if n < 10 then [48 + n] else digits (n div 10) @ [48 + n mod 10])"

definition number_toString :: "int \<Rightarrow> jsstr" where
  "number_toString i = (if i < 0 then 45 # digits (nat (- i)) else digits (nat i))"

text \<open>\<open>a || d\<close> on strings: the empty string is falsy.\<close>

definition or_default :: "jsstr \<Rightarrow> jsstr \<Rightarrow> jsstr" where
  "or_default a d = (if a = [] then d else a)"

text \<open>
  What \<open>JSON.parse\<close> can return. A number is a rational here (the parse of \<open>1e999\<close>,
  infinity, is outside the model; numbers are only ever inspected for the advisory
  warning of the quiz path). An object is its list of key/value pairs.
\<close>

datatype json =
    JNull
  | JBool bool
  | JNum rat
  | JStr jsstr
  | JArr "json list"
  | JObj "(jsstr \<times> json) list"

text \<open>\<open>xs.slice(0, n)\<close> for an integer \<open>n\<close>: a negative \<open>n\<close> counts from the end.\<close>

definition slice0 :: "'a list \<Rightarrow> int \<Rightarrow> 'a list" where
  "slice0 xs n = (if n < 0 then take (nat (int (length xs) + n)) xs else take (nat n) xs)"

section \<open>Errors and effects\<close>

text \<open>
  Every failure of the program is a thrown \<open>Error\<close> object, told apart only by its message.
  A call's visible effects are recorded in order: an HTTP fetch, a call of the language
  model with its prompt, a call of \<open>JSON.parse\<close> with its argument, and a \<open>console.warn\<close>.
  (\<open>console.log\<close> and \<open>console.error\<close> output is not modelled.)
\<close>

datatype js_error = Error (message: jsstr)

datatype event =
    HttpGet jsstr
  | ModelCall jsstr
  | JsonParse jsstr
  | ConsoleWarn jsstr

record 'a run =
  events :: "event list"
  result :: "js_error + 'a"

definition succeed :: "'a \<Rightarrow> 'a run" where
  "succeed v = \<lparr>events = [], result = Inr v\<rparr>"

definition throw :: "jsstr \<Rightarrow> 'a run" where
  "throw m = \<lparr>events = [], result = Inl (Error m)\<rparr>"

text \<open>Effects that happened before the rest of a computation ran.\<close>

definition after :: "event list \<Rightarrow> 'a run \<Rightarrow> 'a run" where
  "after es r = r\<lparr>events := es @ events r\<rparr>"

text \<open>\<open>try { body } catch (e) { throw new Error(f(e.message)) }\<close>\<close>

definition catch_rethrow :: "(jsstr \<Rightarrow> jsstr) \<Rightarrow> 'a run \<Rightarrow> 'a run" where
  "catch_rethrow f r =
     (case result r of
        Inl e \<Rightarrow> r\<lparr>result := Inl (Error (f (message e)))\<rparr>
      | Inr v \<Rightarrow> r)"

definition model_calls :: "'a run \<Rightarrow> jsstr list" where
  "model_calls r = [p. ModelCall p \<leftarrow> events r]"

definition http_calls :: "'a run \<Rightarrow> jsstr list" where
  "http_calls r = [u. HttpGet u \<leftarrow> events r]"

definition parse_calls :: "'a run \<Rightarrow> jsstr list" where
  "parse_calls r = [s. JsonParse s \<leftarrow> events r]"

section \<open>The language model and the module state\<close>

text \<open>
  What one \<open>generateContent\<close> call can do: reject with an error (its message, and its
  \<open>status\<close> rendered as text when it has a truthy one), answer without usable content
  (\<open>response?.candidates?.[0]?.content\<close> falsy; the block and finish reasons when defined),
  or answer with the text of the first part of the first candidate.
\<close>

datatype model_outcome =
    Rejected jsstr "jsstr option"
  | NoContent "jsstr option" "jsstr option"
  | Content jsstr

text \<open>
  The module's handles \<open>genAI\<close>, \<open>modelFlashcard\<close>, \<open>modelQuiz\<close> (unset without an API
  key), and the built-in \<open>JSON.parse\<close>, which returns a value or throws a \<open>SyntaxError\<close>
  with a message.
\<close>

record ai =
  genAI :: bool
  modelFlashcard :: "(jsstr \<Rightarrow> model_outcome) option"
  modelQuiz :: "(jsstr \<Rightarrow> model_outcome) option"
  JSON_parse :: "jsstr \<Rightarrow> jsstr + json"

section \<open>generateFlashcardsAI\<close>

definition MAX_TEXT_LENGTH :: int where
  "MAX_TEXT_LENGTH = 25000"

definition flashcard_prompt :: "int \<Rightarrow> jsstr \<Rightarrow> jsstr" where
  "flashcard_prompt numCards truncatedText =
     lit ''Erstelle Lernkarten (Flashcards)... Erstelle maximal '' @ number_toString numCards @
     lit '' Lernkarten... Text: --- '' @ truncatedText @ lit '' --- JSON-Array:''"

definition placeholder_card :: json where
  "placeholder_card =
     JObj [(lit ''front'', JStr (lit ''Kein Inhalt?'')), (lit ''back'', JStr (lit ''Text zu kurz.''))]"

text \<open>The body of the inner \<open>try\<close> of generateFlashcardsAI (lines 102 to 106).\<close>

definition flashcards_parse_body :: "ai \<Rightarrow> jsstr \<Rightarrow> int \<Rightarrow> json list run" where
  "flashcards_parse_body w aiTextResponse numCards =
     (let startIndex = indexOf aiTextResponse 91;
          endIndex = lastIndexOf aiTextResponse 93
      in if startIndex = - 1 \<or> endIndex = - 1 \<or> endIndex < startIndex
         then throw (lit ''KI-Antwort (Flashcards) ohne JSON-Array.'')
         else
           let jsonString = substring aiTextResponse startIndex (endIndex + 1)
           in after [JsonParse jsonString]
                (case JSON_parse w jsonString of
                   Inl syntax_error \<Rightarrow> throw syntax_error
                 | Inr (JArr flashcards) \<Rightarrow> succeed (slice0 flashcards numCards)
                 | Inr _ \<Rightarrow> throw (lit ''KI-Antwort (Flashcards) kein Array.'')))"

text \<open>The body of the outer \<open>try\<close> (lines 97 to 107), the inner \<open>catch\<close> included.\<close>

definition flashcards_call_model ::
  "ai \<Rightarrow> (jsstr \<Rightarrow> model_outcome) \<Rightarrow> jsstr \<Rightarrow> int \<Rightarrow> json list run" where
  "flashcards_call_model w model prompt numCards =
     after [ModelCall prompt]
       (case model prompt of
          Rejected m status \<Rightarrow> throw m
        | NoContent blockReason finishReason \<Rightarrow>
            throw (lit ''Keine g'' @ [252] @ lit ''ltige KI-Antwort (Flashcards).'')
        | Content aiTextResponse \<Rightarrow>
            catch_rethrow (\<lambda>m. lit ''KI-Antwort (Flashcards) nicht lesbar: '' @ m)
              (flashcards_parse_body w aiTextResponse numCards))"

definition generateFlashcardsAI :: "ai \<Rightarrow> jsstr \<Rightarrow> int \<Rightarrow> json list run" where
  "generateFlashcardsAI w textContent maxCards =
     (case (genAI w, modelFlashcard w) of
        (True, Some model) \<Rightarrow>
          (let numCards = max 3 (min 25 maxCards)
           in if textContent = [] \<or> int (length (trim textContent)) < 10
              then succeed [placeholder_card]
              else
                let truncatedText = substring textContent 0 MAX_TEXT_LENGTH;
                    warning =
                      (if int (length textContent) > MAX_TEXT_LENGTH
                       then [ConsoleWarn (lit ''Text truncated.'')] else []);
                    prompt = flashcard_prompt numCards truncatedText
                in after warning
                     (catch_rethrow (\<lambda>m. or_default m (lit ''KI-Fehler (Flashcards).''))
                        (flashcards_call_model w model prompt numCards)))
      | _ \<Rightarrow> throw (lit ''KI-Dienst (Flashcard) nicht verf'' @ [252] @ lit ''gbar.''))"

section \<open>generateQuizAI\<close>

text \<open>The three fixed pieces of the quiz prompt, around the count and the text.\<close>

definition quiz_prompt_head :: jsstr where
  "quiz_prompt_head =
     [10] @
     lit ''        Erstelle basierend auf dem folgenden Text ein Multiple-Choice-Quiz mit Mehrfachauswahlm'' @ [246] @ lit ''glichkeit.'' @ [10] @
     lit ''        Zielgruppe: Lernende, die den Inhalt des Textes verstehen und '' @ [252] @ lit ''berpr'' @ [252] @ lit ''fen m'' @ [246] @ lit ''chten.'' @ [10] @
     lit ''        Anforderungen:'' @ [10] @
     lit ''        1.  Generiere genau ''"

definition quiz_prompt_rules :: jsstr where
  "quiz_prompt_rules =
     lit '' Fragen.'' @ [10] @
     lit ''        2.  Jede Frage muss sich klar auf wichtige Informationen oder Schl'' @ [252] @ lit ''sselkonzepte im Text beziehen.'' @ [10] @
     lit ''        3.  Formuliere die Fragen klar und eindeutig. Es kann EINE oder MEHRERE korrekte Antworten geben.'' @ [10] @
     lit ''        4.  Erstelle f'' @ [252] @ lit ''r jede Frage genau 4 Antwortoptionen (ein Array von Strings).'' @ [10] @
     lit ''        5.  Mindestens EINE der vier Optionen muss korrekt sein.'' @ [10] @
     lit ''        6.  Die falschen Antwortoptionen (Distraktoren) m'' @ [252] @ lit ''ssen plausibel klingen, aber eindeutig falsch sein.'' @ [10] @
     lit ''        7.  Gib das Ergebnis ausschlie'' @ [223] @ lit ''lich als JSON-Array zur'' @ [252] @ lit ''ck. Jedes Objekt im Array repr'' @ [228] @ lit ''sentiert eine Frage und muss exakt die folgende Struktur haben:'' @ [10] @
     lit ''            {'' @ [10] @
     lit ''              '' @ [34] @ lit ''question'' @ [34] @ lit '': '' @ [34] @ lit ''Die Frage als String.'' @ [34] @ lit '','' @ [10] @
     lit ''              '' @ [34] @ lit ''options'' @ [34] @ lit '': ['' @ [34] @ lit ''Antwort A'' @ [34] @ lit '', '' @ [34] @ lit ''Antwort B'' @ [34] @ lit '', '' @ [34] @ lit ''Antwort C'' @ [34] @ lit '', '' @ [34] @ lit ''Antwort D'' @ [34] @ lit ''],'' @ [10] @
     lit ''              '' @ [34] @ lit ''correctAnswerIndices'' @ [34] @ lit '': [index1, index2, ...] // Array mit den Indizes (0-3) ALLER korrekten Antworten.'' @ [10] @
     lit ''            }'' @ [10] @
     lit ''        8.  Stelle sicher, dass das gesamte Ergebnis valides JSON ist. Strings d'' @ [252] @ lit ''rfen keine unmaskierten Zeilenumbr'' @ [252] @ lit ''che enthalten.'' @ [10] @
     [10] @
     lit ''        Text:'' @ [10] @
     lit ''        ---'' @ [10] @
     lit ''        ''"

definition quiz_prompt_tail :: jsstr where
  "quiz_prompt_tail =
     [10] @
     lit ''        ---'' @ [10] @
     [10] @
     lit ''        JSON-Array mit Quizfragen (Mehrfachauswahl m'' @ [246] @ lit ''glich):'' @ [10] @
     lit ''    ''"

definition quiz_prompt :: "int \<Rightarrow> jsstr \<Rightarrow> jsstr" where
  "quiz_prompt numberOfQuestions truncatedText =
     quiz_prompt_head @ number_toString numberOfQuestions @ quiz_prompt_rules @
     truncatedText @ quiz_prompt_tail"

text \<open>
  Property access \<open>v.k\<close> on a parsed value other than \<open>null\<close>, for the keys the program
  reads (\<open>question\<close>, \<open>options\<close>, \<open>correctAnswerIndices\<close>): the value stored in an object,
  \<open>undefined\<close> (\<open>None\<close>) otherwise. On \<open>null\<close> the access throws a \<open>TypeError\<close>.
\<close>

definition get_prop :: "json \<Rightarrow> jsstr \<Rightarrow> json option" where
  "get_prop v k = (case v of JObj kvs \<Rightarrow> map_of kvs k | _ \<Rightarrow> None)"

definition valid_index :: "json \<Rightarrow> bool" where
  "valid_index idx = (case idx of JNum x \<Rightarrow> 0 \<le> x \<and> x \<le> 3 | _ \<Rightarrow> False)"

text \<open>The condition of the advisory check on the first question (lines 198 to 203).\<close>

definition first_question_malformed :: "json \<Rightarrow> bool" where
  "first_question_malformed firstQuestion \<longleftrightarrow>
     (case get_prop firstQuestion (lit ''question'') of Some (JStr q) \<Rightarrow> False | _ \<Rightarrow> True)
     \<or> (case get_prop firstQuestion (lit ''options'') of
           Some (JArr options) \<Rightarrow> length options \<noteq> 4 | _ \<Rightarrow> True)
     \<or> (case get_prop firstQuestion (lit ''correctAnswerIndices'') of
           Some (JArr indices) \<Rightarrow> indices = [] \<or> \<not> list_all valid_index indices
         | _ \<Rightarrow> True)"

definition null_property_TypeError :: jsstr where
  "null_property_TypeError =
     lit ''Cannot read properties of null (reading '' @ [39] @ lit ''question'' @ [39] @ lit '')''"

definition structure_warning :: jsstr where
  "structure_warning =
     lit ''Parsed quiz array elements might not have the correct structure: {question: string, options: string[4], correctAnswerIndices: number[]}.''"

text \<open>The validation block (lines 195 to 212), once \<open>JSON.parse\<close> has returned a value.\<close>

definition quiz_validate :: "json \<Rightarrow> int \<Rightarrow> json list run" where
  "quiz_validate parsed numberOfQuestions =
     (case parsed of
        JArr quizQuestions \<Rightarrow>
          (case quizQuestions of
             [] \<Rightarrow> succeed (slice0 quizQuestions numberOfQuestions)
           | firstQuestion # rest \<Rightarrow>
               if firstQuestion = JNull then throw null_property_TypeError
               else after
                      (if first_question_malformed firstQuestion
                       then [ConsoleWarn structure_warning] else [])
                      (succeed (slice0 quizQuestions numberOfQuestions)))
      | _ \<Rightarrow> throw (lit ''AI quiz response was not a valid JSON array.''))"

text \<open>The body of the inner \<open>try\<close> of generateQuizAI (lines 185 to 212).\<close>

definition quiz_parse_body :: "ai \<Rightarrow> jsstr \<Rightarrow> int \<Rightarrow> json list run" where
  "quiz_parse_body w aiTextResponse numberOfQuestions =
     (let startIndex = indexOf aiTextResponse 91;
          endIndex = lastIndexOf aiTextResponse 93
      in if startIndex = - 1 \<or> endIndex = - 1 \<or> endIndex < startIndex
         then throw (lit ''KI-Antwort (Quiz) ohne JSON-Array.'')
         else
           let jsonString = substring aiTextResponse startIndex (endIndex + 1)
           in after [JsonParse jsonString]
                (case JSON_parse w jsonString of
                   Inl syntax_error \<Rightarrow> throw syntax_error
                 | Inr parsed \<Rightarrow> quiz_validate parsed numberOfQuestions))"

text \<open>\<open>${x}\<close> of a value that may be \<open>undefined\<close>, and its truthiness.\<close>

definition show_optional :: "jsstr option \<Rightarrow> jsstr" where
  "show_optional x = (case x of None \<Rightarrow> lit ''undefined'' | Some s \<Rightarrow> s)"

definition truthy :: "jsstr option \<Rightarrow> bool" where
  "truthy x = (case x of None \<Rightarrow> False | Some s \<Rightarrow> s \<noteq> [])"

text \<open>
  The body of the outer \<open>try\<close> (lines 165 to 218), the inner \<open>catch\<close> included. Only an
  error of the model client can carry a \<open>status\<close>, so the suffix that the outer \<open>catch\<close>
  (line 221) adds for one is applied where such an error arises. The model called is
  \<open>modelQuiz || modelFlashcard\<close>, which is \<open>modelQuiz\<close> whenever the guard of line 120 has
  let the call through; the \<open>throw\<close> of line 166 is never reached.
\<close>

definition quiz_call_model ::
  "ai \<Rightarrow> (jsstr \<Rightarrow> model_outcome) \<Rightarrow> jsstr \<Rightarrow> int \<Rightarrow> json list run" where
  "quiz_call_model w activeModel prompt numberOfQuestions =
     after [ModelCall prompt]
       (case activeModel prompt of
          Rejected m status \<Rightarrow>
            throw (case status of
                     Some s \<Rightarrow> m @ lit '' (Status: '' @ s @ lit '')''
                   | None \<Rightarrow> m)
        | NoContent blockReason finishReason \<Rightarrow>
            after [ConsoleWarn
                     (lit ''Gemini response blocked/empty (Quiz). Block: '' @
                      show_optional blockReason @ lit '', Finish: '' @
                      show_optional finishReason)]
              (throw (lit ''Keine g'' @ [252] @ lit ''ltige Quiz-Antwort von der KI erhalten.'' @
                      (if truthy blockReason
                       then lit '' Grund: '' @ show_optional blockReason else []) @
                      (if truthy finishReason
                       then lit '' Status: '' @ show_optional finishReason else [])))
        | Content aiTextResponse \<Rightarrow>
            catch_rethrow
              (\<lambda>m. lit ''Konnte das Quiz aus der KI-Antwort nicht korrekt extrahieren: '' @ m)
              (quiz_parse_body w aiTextResponse numberOfQuestions))"

definition generateQuizAI :: "ai \<Rightarrow> jsstr \<Rightarrow> int \<Rightarrow> json list run" where
  "generateQuizAI w textContent numQuestions =
     (case (genAI w, modelQuiz w) of
        (True, Some quizModel) \<Rightarrow>
          (let numberOfQuestions = max 3 (min 15 numQuestions)
           in if textContent = [] \<or> int (length (trim textContent)) < 50
              then succeed []
              else
                let truncatedText = substring textContent 0 MAX_TEXT_LENGTH;
                    warning =
                      (if int (length textContent) > MAX_TEXT_LENGTH
                       then [ConsoleWarn (lit ''Text content truncated for quiz API call.'')]
                       else []);
                    prompt = quiz_prompt numberOfQuestions truncatedText
                in after warning
                     (catch_rethrow
                        (\<lambda>m. or_default m
                           (lit ''Fehler bei der Kommunikation mit dem KI-Dienst f'' @ [252] @
                            lit ''r das Quiz.''))
                        (quiz_call_model w quizModel prompt numberOfQuestions)))
      | _ \<Rightarrow>
          throw (lit ''KI-Dienst (Quiz) ist nicht verf'' @ [252] @ lit ''gbar (API-Schl'' @ [252] @
                 lit ''ssel fehlt?).''))"

section \<open>Buffers and UTF-8\<close>

type_synonym byte = "8 word"

definition is_continuation :: "nat \<Rightarrow> bool" where
  "is_continuation b \<longleftrightarrow> 128 \<le> b \<and> b \<le> 191"

text \<open>The range allowed for the byte after the lead byte of a 3- or 4-byte sequence.\<close>

definition second_byte_ok :: "nat \<Rightarrow> nat \<Rightarrow> bool" where
  "second_byte_ok b0 b1 \<longleftrightarrow>
     (if b0 = 224 then 160 \<le> b1 \<and> b1 \<le> 191
      else if b0 = 237 then 128 \<le> b1 \<and> b1 \<le> 159
      else if b0 = 240 then 144 \<le> b1 \<and> b1 \<le> 191
      else if b0 = 244 then 128 \<le> b1 \<and> b1 \<le> 143
      else is_continuation b1)"

definition surrogate_pair :: "nat \<Rightarrow> jsstr" where
  "surrogate_pair cp = [55296 + (cp - 65536) div 1024, 56320 + (cp - 65536) mod 1024]"

definition scalar_units :: "nat \<Rightarrow> jsstr" where
  "scalar_units cp = (if cp < 65536 then [cp] else surrogate_pair cp)"

text \<open>How many continuation bytes a lead byte announces (none for ASCII and for a byte that cannot lead).\<close>

definition continuation_count :: "nat \<Rightarrow> nat" where
  "continuation_count b0 =
     (if 194 \<le> b0 \<and> b0 \<le> 223 then 1
      else if 224 \<le> b0 \<and> b0 \<le> 239 then 2
      else if 240 \<le> b0 \<and> b0 \<le> 244 then 3
      else 0)"

definition lead_bits :: "nat \<Rightarrow> nat" where
  "lead_bits b0 = (if b0 < 224 then b0 - 192 else if b0 < 240 then b0 - 224 else b0 - 240)"

text \<open>The bytes after the lead byte \<open>b0\<close> that continue its sequence: at most as many as announced.\<close>

definition accepted_tail :: "nat \<Rightarrow> nat list \<Rightarrow> nat list" where
  "accepted_tail b0 bs =
     (case take (continuation_count b0) bs of
        [] \<Rightarrow> []
      | b1 # others \<Rightarrow>
          if second_byte_ok b0 b1 then b1 # takeWhile is_continuation others else [])"

text \<open>
  The code units for what starts at the byte \<open>b0\<close>, followed by \<open>bs\<close>: the byte itself when
  ASCII, the scalar value of a complete sequence, and the replacement character U+FFFD
  (65533) for a byte that cannot lead and for a sequence cut short.
\<close>

definition utf8_next :: "nat \<Rightarrow> nat list \<Rightarrow> jsstr" where
  "utf8_next b0 bs =
     (if b0 < 128 then [b0]
      else if continuation_count b0 = 0 \<or>
              length (accepted_tail b0 bs) < continuation_count b0 then [65533]
      else scalar_units
             (foldl (\<lambda>cp b. cp * 64 + (b - 128)) (lead_bits b0) (accepted_tail b0 bs)))"

text \<open>
  UTF-8 decoding as \<open>Buffer.prototype.toString('utf-8')\<close> does it: every maximal ill-formed
  subsequence becomes one replacement character, a code point above U+FFFF becomes a
  surrogate pair, and a byte order mark is kept. The argument is the list of byte values;
  decoding resumes after the bytes the first sequence has taken.
\<close>

fun utf8_units :: "nat list \<Rightarrow> jsstr" where
  "utf8_units [] = []"
| "utf8_units (b0 # bs) =
     utf8_next b0 bs @ utf8_units (drop (length (accepted_tail b0 bs)) bs)"

text \<open>
  The longest string the engine builds (\<open>buffer.constants.MAX_STRING_LENGTH\<close> on a 64-bit
  build); \<open>toString\<close> throws when the decoded text would be longer, and in no other case.
\<close>

definition MAX_STRING_LENGTH :: nat where
  "MAX_STRING_LENGTH = 2 ^ 29 - 24"

definition Buffer_toString_utf8 :: "byte list \<Rightarrow> js_error + jsstr" where
  "Buffer_toString_utf8 bytes =
     (let decoded = utf8_units (map unat bytes)
      in if length decoded > MAX_STRING_LENGTH
         then Inl (Error (lit ''Cannot create a string longer than 0x1fffffe8 characters''))
         else Inr decoded)"

section \<open>extractText\<close>

text \<open>An uploaded file as multer's memory storage hands it over (\<open>req.file\<close>).\<close>

record upload =
  buffer :: "byte list"
  mimetype :: jsstr
  originalname :: jsstr


text \<open>
  What \<open>axios.get\<close> can do. It rejects with an error object, of which the \<open>catch\<close> reads
  \<open>code\<close>, \<open>response.status\<close>, whether \<open>request\<close> is set, and \<open>message\<close>; or it resolves with
  a response, of which the code reads \<open>status\<close>, the \<open>content-type\<close> header (\<open>None\<close> when
  absent) and \<open>data\<close> (a string or something else).
\<close>

record fetch_error =
  error_code :: "jsstr option"
  error_response_status :: "int option"
  error_request :: bool
  error_message :: jsstr

datatype response_data = StringData jsstr | OtherData

record fetch_response =
  status :: int
  content_type :: "jsstr option"
  response_body :: response_data

datatype fetch_outcome = Failed fetch_error | Responded fetch_response

text \<open>
  The capabilities extractText draws on: \<open>pdf-parse\<close> and \<open>mammoth\<close> (the extracted text,
  or \<open>None\<close> when anything in their \<open>try\<close> block throws), \<open>axios.get\<close>, the cheerio
  selection of line 81 up to the choice among \<open>main\<close>, \<open>article\<close>, \<open>.content\<close>,
  \<open>.post-content\<close> and \<open>body\<close> (the text, or the message of what it threw), and the built-in
  \<open>String.prototype.toLowerCase\<close>.
\<close>

record env =
  pdf_parse :: "byte list \<Rightarrow> jsstr option"
  mammoth_extractRawText :: "byte list \<Rightarrow> jsstr option"
  axios_get :: "jsstr \<Rightarrow> fetch_outcome"
  cheerio_text :: "response_data \<Rightarrow> jsstr + jsstr"
  toLowerCase :: "jsstr \<Rightarrow> jsstr"

text \<open>
  The test \<open>/\.(jpg|jpeg|png|gif|mp3|mp4|zip|exe|dmg)$/i.test(url)\<close>. Without the
  \<open>u\<close> flag, ignoring case identifies a letter of the pattern only with its other
  ASCII case, and \<open>$\<close> matches at the end of the whole string only.
\<close>

definition ascii_lower :: "nat \<Rightarrow> nat" where
  "ascii_lower c = (if 65 \<le> c \<and> c \<le> 90 then c + 32 else c)"

definition binary_extensions :: "jsstr list" where
  "binary_extensions =
     [lit ''jpg'', lit ''jpeg'', lit ''png'', lit ''gif'', lit ''mp3'', lit ''mp4'',
      lit ''zip'', lit ''exe'', lit ''dmg'']"

definition binary_url_test :: "jsstr \<Rightarrow> bool" where
  "binary_url_test url \<longleftrightarrow>
     list_ex (\<lambda>ext. endsWith (map ascii_lower url) (46 # ext)) binary_extensions"

text \<open>\<open>text.replace(/\s\s+/g, ' ')\<close>: every run of two or more white-space units becomes one space.\<close>

function collapse_whitespace :: "jsstr \<Rightarrow> jsstr" where
  "collapse_whitespace [] = []"
| "collapse_whitespace [c] = [c]"
| "collapse_whitespace (c # d # cs) =
     (if is_white_space c \<and> is_white_space d
      then 32 # collapse_whitespace (dropWhile is_white_space cs)
      else c # collapse_whitespace (d # cs))"
  by pat_completeness auto
termination
  by (relation "measure length") (auto simp: less_Suc_eq_le intro: le_trans [OF length_dropWhile_le])

definition plain_error :: "jsstr \<Rightarrow> fetch_error" where
  "plain_error m =
     \<lparr>error_code = None, error_response_status = None, error_request = False,
      error_message = m\<rparr>"

text \<open>The \<open>try\<close> block of the URL branch (lines 75 to 84): its effects, and what it throws or returns.\<close>

definition extract_url_body :: "env \<Rightarrow> jsstr \<Rightarrow> event list \<times> (fetch_error + jsstr)" where
  "extract_url_body e url =
     (if url = [] \<or> \<not> startsWith url (lit ''http'')
      then ([], Inl (plain_error (lit ''Ung'' @ [252] @ lit ''ltige URL.'')))
      else if binary_url_test url
      then ([], Inr (lit ''[Bin'' @ [228] @ lit ''rdatei ('' @ url @ lit '')]''))
      else
        (case axios_get e url of
           Failed err \<Rightarrow> ([HttpGet url], Inl err)
         | Responded response \<Rightarrow>
             let contentType = content_type response
             in if status response \<ge> 400
                then ([HttpGet url],
                      Inl (plain_error
                             (lit ''URL Fehler: Status '' @ number_toString (status response))))
                else if \<not> truthy contentType \<or>
                        \<not> includes_js (toLowerCase e (show_optional contentType)) (lit ''html'')
                then
                  (case response_body response of
                     StringData d \<Rightarrow>
                       if truthy contentType \<and>
                          includes_js (toLowerCase e (show_optional contentType))
                            (lit ''text/plain'')
                       then ([HttpGet url], Inr (substring d 0 5000))
                       else ([HttpGet url],
                             Inr (lit ''[Kein HTML ('' @ show_optional contentType @ lit '')]''))
                   | OtherData \<Rightarrow>
                       ([HttpGet url],
                        Inr (lit ''[Kein HTML ('' @ show_optional contentType @ lit '')]'')))
                else
                  (case cheerio_text e (response_body response) of
                     Inl m \<Rightarrow> ([HttpGet url], Inl (plain_error m))
                   | Inr selected \<Rightarrow>
                       let extracted = trim (collapse_whitespace selected)
                       in if length extracted = 0
                          then ([HttpGet url,
                                 ConsoleWarn (lit ''Extracted text from URL empty.'')],
                                Inr (lit ''[Kein Text von URL extrahiert.]''))
                          else if length extracted < 150
                          then ([HttpGet url,
                                 ConsoleWarn
                                   (lit ''Extracted text from URL very short ('' @
                                    number_toString (int (length extracted)) @
                                    lit '' chars).'')],
                                Inr extracted)
                          else ([HttpGet url], Inr extracted))))"

text \<open>The \<open>catch\<close> of the URL branch (line 85): the message of the rejection.\<close>

definition url_rejection :: "fetch_error \<Rightarrow> jsstr" where
  "url_rejection err =
     (if error_code err = Some (lit ''ECONNABORTED'') then lit ''URL Timeout.''
      else case error_response_status err of
             Some s \<Rightarrow> lit ''URL Fehler: Status '' @ number_toString s
           | None \<Rightarrow>
               if error_request err then lit ''URL Fehler: Keine Antwort.''
               else lit ''URL Fehler: '' @ error_message err)"

text \<open>
  The calls \<open>extractText(inputType, data)\<close> that the two routes make: \<open>'text'\<close> and \<open>'url'\<close>
  with a string, \<open>'file'\<close> with an upload; any other input type is rejected.
\<close>

datatype extract_input =
    TextInput jsstr
  | FileInput upload
  | UrlInput jsstr
  | OtherInput jsstr

definition docx_mimetype :: jsstr where
  "docx_mimetype =
     lit ''application/vnd.openxmlformats-officedocument.wordprocessingml.document''"

definition extractText :: "env \<Rightarrow> extract_input \<Rightarrow> jsstr run" where
  "extractText e input =
     (case input of
        TextInput d \<Rightarrow> succeed (or_default d [])
      | FileInput f \<Rightarrow>
          if mimetype f = lit ''text/plain'' then
            (case Buffer_toString_utf8 (buffer f) of
               Inr decoded \<Rightarrow> succeed decoded
             | Inl err \<Rightarrow> throw (lit ''Textdatei lesen fehlgeschlagen.''))
          else if mimetype f = lit ''application/pdf'' then
            (case pdf_parse e (buffer f) of
               Some extracted \<Rightarrow> succeed extracted
             | None \<Rightarrow> throw (lit ''PDF-Verarbeitung fehlgeschlagen.''))
          else if mimetype f = docx_mimetype then
            (case mammoth_extractRawText e (buffer f) of
               Some extracted \<Rightarrow> succeed extracted
             | None \<Rightarrow> throw (lit ''DOCX-Verarbeitung fehlgeschlagen.''))
          else after [ConsoleWarn (lit ''Unsupported file type: '' @ mimetype f)]
                 (throw (lit ''Nicht unterst'' @ [252] @ lit ''tzter Dateityp: '' @ mimetype f))
      | UrlInput url \<Rightarrow>
          (case extract_url_body e url of
             (effects, Inr extracted) \<Rightarrow> after effects (succeed extracted)
           | (effects, Inl err) \<Rightarrow> after effects (throw (url_rejection err)))
      | OtherInput t \<Rightarrow> throw (lit ''Ung'' @ [252] @ lit ''ltiger Input-Typ.''))"

section \<open>The two routes\<close>

text \<open>
  \<open>parseInt(s)\<close> without a radix: leading white space and one sign are skipped, \<open>0x\<close> or
  \<open>0X\<close> selects radix 16, and the longest run of digits is read; \<open>None\<close> is NaN. The
  result is the exact integer: the rounding of a very long digit string to a double (or to
  infinity) keeps its sign and keeps it beyond every bound the program compares it with.
\<close>

definition digit_value :: "nat \<Rightarrow> nat option" where
  "digit_value c =
     (if 48 \<le> c \<and> c \<le> 57 then Some (c - 48)
      else if 97 \<le> c \<and> c \<le> 122 then Some (c - 87)
      else if 65 \<le> c \<and> c \<le> 90 then Some (c - 55)
      else None)"

definition is_digit :: "nat \<Rightarrow> nat \<Rightarrow> bool" where
  "is_digit radix c = (case digit_value c of Some d \<Rightarrow> d < radix | None \<Rightarrow> False)"

definition digits_value :: "nat \<Rightarrow> jsstr \<Rightarrow> nat" where
  "digits_value radix z = foldl (\<lambda>acc c. acc * radix + (case digit_value c of Some d \<Rightarrow> d | None \<Rightarrow> 0)) 0 z"

definition parseInt :: "jsstr \<Rightarrow> int option" where
  "parseInt inputString =
     (let s = trimStart inputString;
          negative = (s \<noteq> [] \<and> hd s = 45);
          s1 = (if s \<noteq> [] \<and> (hd s = 43 \<or> hd s = 45) then tl s else s);
          hex = (startsWith s1 (lit ''0x'') \<or> startsWith s1 (lit ''0X''));
          radix = (if hex then 16 else 10);
          s2 = (if hex then drop 2 s1 else s1);
          z = takeWhile (is_digit radix) s2
      in if z = [] then None
         else Some ((if negative then - 1 else 1) * int (digits_value radix z)))"

text \<open>
  The fields of a request that the routes read. \<open>req.body.inputType\<close>, \<open>textData\<close> and
  \<open>urlData\<close> are strings, as form fields are, or \<open>None\<close> when absent (\<open>undefined\<close>); a
  value of another type in one of them is outside the model. \<open>maxCards\<close> and
  \<open>numQuestions\<close> are only ever handed to \<open>parseInt\<close>, which converts its argument to a
  string first: each is that string, or \<open>None\<close> when absent. \<open>req.file\<close> is the upload that
  passed multer.
\<close>

record request =
  body_inputType :: "jsstr option"
  body_textData :: "jsstr option"
  body_urlData :: "jsstr option"
  req_file :: "upload option"
  body_maxCards :: "jsstr option"
  body_numQuestions :: "jsstr option"

text \<open>\<open>parseInt(field) || d\<close>: NaN and 0 are falsy.\<close>

definition parseInt_or :: "jsstr option \<Rightarrow> int \<Rightarrow> int" where
  "parseInt_or field d =
     (case parseInt (show_optional field) of
        None \<Rightarrow> d
      | Some n \<Rightarrow> if n = 0 then d else n)"

text \<open>
  The input selection shared by both handlers (the first half of lines 232 and 237): an
  error thrown (\<open>!data?.trim()\<close> holds of an absent field and of one that trims to the
  empty string), the immediate 400 answer (\<open>None\<close>), or the arguments for extractText.
\<close>

definition select_input :: "request \<Rightarrow> js_error + extract_input option" where
  "select_input req =
     (if body_inputType req = Some (lit ''text'') then
        (case body_textData req of
           Some d \<Rightarrow> if trim d = [] then Inl (Error (lit ''Kein Text.''))
                      else Inr (Some (TextInput d))
         | None \<Rightarrow> Inl (Error (lit ''Kein Text.'')))
      else if body_inputType req = Some (lit ''file'') then
        (case req_file req of
           None \<Rightarrow> Inl (Error (lit ''Keine Datei.''))
         | Some f \<Rightarrow> Inr (Some (FileInput f)))
      else if body_inputType req = Some (lit ''url'') then
        (case body_urlData req of
           Some d \<Rightarrow> if trim d = [] then Inl (Error (lit ''Keine URL.''))
                      else Inr (Some (UrlInput d))
         | None \<Rightarrow> Inl (Error (lit ''Keine URL.'')))
      else Inr None)"

datatype reply_body = Flashcards "json list" | Quiz "json list" | ErrorBody jsstr

record reply =
  effects :: "event list"
  http_status :: nat
  body :: reply_body

definition api_generate :: "ai \<Rightarrow> env \<Rightarrow> request \<Rightarrow> reply" where
  "api_generate w e req =
     (let maxCards = parseInt_or (body_maxCards req) 15
      in case select_input req of
           Inl err \<Rightarrow>
             \<lparr>effects = [], http_status = 500,
              body = ErrorBody (or_default (message err) (lit ''Serverfehler (Flashcards).''))\<rparr>
         | Inr None \<Rightarrow>
             \<lparr>effects = [], http_status = 400,
              body = ErrorBody (lit ''Ung'' @ [252] @ lit ''ltiger Typ.'')\<rparr>
         | Inr (Some input) \<Rightarrow>
             let extraction = extractText e input
             in case result extraction of
                  Inl err \<Rightarrow>
                    \<lparr>effects = events extraction, http_status = 500,
                     body = ErrorBody
                              (or_default (message err) (lit ''Serverfehler (Flashcards).''))\<rparr>
                | Inr textContent \<Rightarrow>
                    let generation = generateFlashcardsAI w textContent maxCards
                    in case result generation of
                         Inl err \<Rightarrow>
                           \<lparr>effects = events extraction @ events generation,
                            http_status = 500,
                            body = ErrorBody
                                     (or_default (message err)
                                        (lit ''Serverfehler (Flashcards).''))\<rparr>
                       | Inr flashcards \<Rightarrow>
                           \<lparr>effects = events extraction @ events generation,
                            http_status = 200, body = Flashcards flashcards\<rparr>)"

definition api_generate_quiz :: "ai \<Rightarrow> env \<Rightarrow> request \<Rightarrow> reply" where
  "api_generate_quiz w e req =
     (let numQuestions = parseInt_or (body_numQuestions req) 5
      in case select_input req of
           Inl err \<Rightarrow>
             \<lparr>effects = [], http_status = 500,
              body = ErrorBody (or_default (message err) (lit ''Serverfehler (Quiz).''))\<rparr>
         | Inr None \<Rightarrow>
             \<lparr>effects = [], http_status = 400,
              body = ErrorBody (lit ''Ung'' @ [252] @ lit ''ltiger Typ.'')\<rparr>
         | Inr (Some input) \<Rightarrow>
             let extraction = extractText e input
             in case result extraction of
                  Inl err \<Rightarrow>
                    \<lparr>effects = events extraction, http_status = 500,
                     body = ErrorBody (or_default (message err) (lit ''Serverfehler (Quiz).''))\<rparr>
                | Inr textContent \<Rightarrow>
                    let generation = generateQuizAI w textContent numQuestions
                    in case result generation of
                         Inl err \<Rightarrow>
                           \<lparr>effects = events extraction @ events generation,
                            http_status = 500,
                            body = ErrorBody
                                     (or_default (message err) (lit ''Serverfehler (Quiz).''))\<rparr>
                       | Inr quizQuestions \<Rightarrow>
                           \<lparr>effects = events extraction @ events generation,
                            http_status = 200, body = Quiz quizQuestions\<rparr>)"

section \<open>Positions in a string, in the words of the specification\<close>

text \<open>
  The index of the first occurrence of a code unit and of its last occurrence, for a
  string that contains it.
\<close>

definition first_position :: "nat \<Rightarrow> jsstr \<Rightarrow> nat" where
  "first_position c s = length (takeWhile (\<lambda>x. x \<noteq> c) s)"

definition last_position :: "nat \<Rightarrow> jsstr \<Rightarrow> nat" where
  "last_position c s = length s - 1 - length (takeWhile (\<lambda>x. x \<noteq> c) (rev s))"

text \<open>
  The path of a URL (RFC 3986), which the specification's rule on binary extensions looks
  at: what follows the scheme and the authority, without the query and the fragment.
\<close>

fun skip_scheme :: "jsstr \<Rightarrow> jsstr option" where
  "skip_scheme [] = None"
| "skip_scheme (c # cs) =
     (if startsWith (c # cs) (lit ''://'') then Some (drop 3 (c # cs)) else skip_scheme cs)"

definition spec_url_path :: "jsstr \<Rightarrow> jsstr" where
  "spec_url_path url =
     (let u = takeWhile (\<lambda>c. c \<noteq> 63 \<and> c \<noteq> 35) url
      in case skip_scheme u of
           Some rest \<Rightarrow> dropWhile (\<lambda>c. c \<noteq> 47) rest
         | None \<Rightarrow> u)"






section \<open>Concrete inputs\<close>

text \<open>
  A model that answers every prompt with an array of four numbers inside some chatter, and
  a \<open>JSON.parse\<close> that is right on the few strings the examples hand to it.
\<close>

definition example_JSON_parse :: "jsstr \<Rightarrow> jsstr + json" where
  "example_JSON_parse s =
     (if s = lit ''[1, 2, 3, 4]'' then Inr (JArr [JNum 1, JNum 2, JNum 3, JNum 4])
      else if s = lit ''[null]'' then Inr (JArr [JNull])
      else Inl (lit ''Unexpected token''))"

definition example_ai :: ai where
  "example_ai =
     \<lparr>genAI = True,
      modelFlashcard = Some (\<lambda>prompt. Content (lit ''Sure: [1, 2, 3, 4] ok?'')),
      modelQuiz = Some (\<lambda>prompt. Content (lit ''Sure: [1, 2, 3, 4] ok?'')),
      JSON_parse = example_JSON_parse\<rparr>"

definition example_text :: jsstr where
  "example_text = lit ''  The mitochondria is the powerhouse of the cell. It makes ATP.  ''"

text \<open>A model whose answer has both brackets, in the wrong order.\<close>

definition backwards_ai :: ai where
  "backwards_ai =
     \<lparr>genAI = True,
      modelFlashcard = Some (\<lambda>prompt. Content (lit ''] nothing ['')),
      modelQuiz = Some (\<lambda>prompt. Content (lit ''] nothing ['')),
      JSON_parse = example_JSON_parse\<rparr>"

text \<open>A model that answers with an array whose only element is \<open>null\<close>.\<close>

definition null_ai :: ai where
  "null_ai =
     \<lparr>genAI = True,
      modelFlashcard = Some (\<lambda>prompt. Content (lit ''[null]'')),
      modelQuiz = Some (\<lambda>prompt. Content (lit ''[null]'')),
      JSON_parse = example_JSON_parse\<rparr>"

text \<open>
  An environment in which every fetch is answered with status 200 and a JPEG content
  type, and both document parsers fail.
\<close>

definition example_env :: env where
  "example_env =
     \<lparr>pdf_parse = (\<lambda>bytes. None),
      mammoth_extractRawText = (\<lambda>bytes. None),
      axios_get = (\<lambda>url. Responded
        \<lparr>status = 200, content_type = Some (lit ''image/jpeg''), response_body = OtherData\<rparr>),
      cheerio_text = (\<lambda>d. Inr []),
      toLowerCase = map ascii_lower\<rparr>"

text \<open>
  A request with inline text, the card count \<open>0\<close> and no question count; the same
  request with a text of blanks only; a plain-text upload of ten bytes (an ASCII letter, a
  two-byte and a four-byte sequence, then a byte that cannot lead and a sequence cut
  short); and a plain-text buffer one byte longer than the longest string.
\<close>

definition text_request :: request where
  "text_request =
     \<lparr>body_inputType = Some (lit ''text''), body_textData = Some example_text,
      body_urlData = None, req_file = None,
      body_maxCards = Some (lit ''0''), body_numQuestions = None\<rparr>"

definition blank_request :: request where
  "blank_request = text_request\<lparr>body_textData := Some (lit ''   '')\<rparr>"



section \<open>Basic facts about runs\<close>

lemma events_after [simp]: "events (after es r) = es @ events r"
  by (simp add: after_def)

lemma result_after [simp]: "result (after es r) = result r"
  by (simp add: after_def)

lemma events_catch_rethrow [simp]: "events (catch_rethrow f r) = events r"
  by (simp add: catch_rethrow_def split: sum.splits)

lemma result_catch_rethrow_Inr [simp]:
  "(result (catch_rethrow f r) = Inr v) = (result r = Inr v)"
  by (simp add: catch_rethrow_def split: sum.splits)

lemma result_catch_rethrow_Inl:
  "result r = Inl e \<Longrightarrow> result (catch_rethrow f r) = Inl (Error (f (message e)))"
  by (simp add: catch_rethrow_def)

lemma events_succeed [simp]: "events (succeed v) = []"
  by (simp add: succeed_def)

lemma result_succeed [simp]: "result (succeed v) = Inr v"
  by (simp add: succeed_def)

lemma events_throw [simp]: "events (throw m) = []"
  by (simp add: throw_def)

lemma result_throw [simp]: "result (throw m) = Inl (Error m)"
  by (simp add: throw_def)

lemma parse_calls_after [simp]:
  "parse_calls (after es r) = [s. JsonParse s \<leftarrow> es] @ parse_calls r"
  by (simp add: parse_calls_def)

lemma parse_calls_catch_rethrow [simp]: "parse_calls (catch_rethrow f r) = parse_calls r"
  by (simp add: parse_calls_def)

lemma parse_calls_throw [simp]: "parse_calls (throw m) = []"
  by (simp add: parse_calls_def)

lemma parse_calls_succeed [simp]: "parse_calls (succeed v) = []"
  by (simp add: parse_calls_def)

lemma lit_nonempty: "s \<noteq> [] \<Longrightarrow> lit s @ m \<noteq> []"
  by (simp add: lit_def)

lemma substring_prefix: "0 \<le> n \<Longrightarrow> substring s 0 n = take (nat n) s"
  by (simp add: substring_def Let_def min_def max_def)

lemma truncatedText_eq: "substring s 0 MAX_TEXT_LENGTH = take 25000 s"
  by (simp add: substring_prefix MAX_TEXT_LENGTH_def)

lemma exceeds_eq: "(MAX_TEXT_LENGTH < int (length s)) = (25000 < length s)"
  by (simp add: MAX_TEXT_LENGTH_def)

lemma model_calls_after [simp]:
  "model_calls (after es r) = [p. ModelCall p \<leftarrow> es] @ model_calls r"
  by (simp add: model_calls_def)

lemma model_calls_catch_rethrow [simp]: "model_calls (catch_rethrow f r) = model_calls r"
  by (simp add: model_calls_def)

lemma length_slice0: "0 \<le> n \<Longrightarrow> int (length (slice0 xs n)) \<le> n"
  by (simp add: slice0_def)

lemma clamp_idem: "max (3::int) (min hi (max 3 (min hi c))) = max 3 (min hi c)"
  by (simp add: max_def min_def)

text \<open>The definitions that a run on a concrete input unfolds.\<close>

lemmas run_defs =
  generateFlashcardsAI_def flashcards_call_model_def flashcards_parse_body_def
  generateQuizAI_def quiz_call_model_def quiz_parse_body_def quiz_validate_def
  first_question_malformed_def get_prop_def valid_index_def
  lastIndexOf_def substring_def slice0_def trim_def is_white_space_def lit_def
  catch_rethrow_def after_def succeed_def throw_def or_default_def
  model_calls_def parse_calls_def http_calls_def MAX_TEXT_LENGTH_def Let_def

lemmas example_defs = example_ai_def example_JSON_parse_def example_text_def

section \<open>Past the two guards\<close>

text \<open>
  What both generators do once the model is configured and the text is long enough: at
  most a warning about the truncation, then the model call on the prompt for the clamped
  count and the first 25000 code units of the text.
\<close>

lemma generateFlashcardsAI_proceeds:
  assumes "genAI w" "modelFlashcard w = Some model" "10 \<le> length (trim t)"
  shows "generateFlashcardsAI w t c =
     after (if 25000 < length t then [ConsoleWarn (lit ''Text truncated.'')] else [])
       (catch_rethrow (\<lambda>m. or_default m (lit ''KI-Fehler (Flashcards).''))
          (flashcards_call_model w model
             (flashcard_prompt (max 3 (min 25 c)) (take 25000 t)) (max 3 (min 25 c))))"
proof -
  have "t \<noteq> []" using assms(3) by (auto simp: trim_def)
  then show ?thesis
    using assms by (simp add: generateFlashcardsAI_def Let_def truncatedText_eq exceeds_eq)
qed

lemma generateQuizAI_proceeds:
  assumes "genAI w" "modelQuiz w = Some model" "50 \<le> length (trim t)"
  shows "generateQuizAI w t q =
     after (if 25000 < length t
            then [ConsoleWarn (lit ''Text content truncated for quiz API call.'')] else [])
       (catch_rethrow
          (\<lambda>m. or_default m
             (lit ''Fehler bei der Kommunikation mit dem KI-Dienst f'' @ [252] @
              lit ''r das Quiz.''))
          (quiz_call_model w model
             (quiz_prompt (max 3 (min 15 q)) (take 25000 t)) (max 3 (min 15 q))))"
proof -
  have "t \<noteq> []" using assms(3) by (auto simp: trim_def)
  then show ?thesis
    using assms by (simp add: generateQuizAI_def Let_def truncatedText_eq exceeds_eq)
qed

section \<open>Count clamping\<close>

lemma flashcards_parse_body_length:
  "0 \<le> n \<Longrightarrow> result (flashcards_parse_body w reply n) = Inr cards \<Longrightarrow>
   int (length cards) \<le> n"
  by (auto simp: flashcards_parse_body_def Let_def length_slice0
      split: if_splits sum.splits json.splits)

lemma flashcards_call_model_length:
  "0 \<le> n \<Longrightarrow> result (flashcards_call_model w m p n) = Inr cards \<Longrightarrow>
   int (length cards) \<le> n"
  by (auto simp: flashcards_call_model_def dest: flashcards_parse_body_length
      split: model_outcome.splits)

lemma generateFlashcardsAI_length:
  "result (generateFlashcardsAI w t c) = Inr cards \<Longrightarrow> int (length cards) \<le> max 3 (min 25 c)"
  by (auto simp: generateFlashcardsAI_def Let_def split: bool.splits option.splits if_splits
      dest!: flashcards_call_model_length[rotated])

lemma generateFlashcardsAI_clamp:
  "generateFlashcardsAI w t c = generateFlashcardsAI w t (max 3 (min 25 c))"
  unfolding generateFlashcardsAI_def Let_def clamp_idem by (rule refl)

lemma model_calls_flashcards_call_model:
  "model_calls (flashcards_call_model w m p n) = [p]"
  by (auto simp: model_calls_def flashcards_call_model_def flashcards_parse_body_def Let_def
      split: model_outcome.splits sum.splits json.splits)

lemma generateFlashcardsAI_calls:
  "model_calls (generateFlashcardsAI w t c) = [] \<or>
   model_calls (generateFlashcardsAI w t c) =
     [flashcard_prompt (max 3 (min 25 c)) (substring t 0 MAX_TEXT_LENGTH)]"
  using model_calls_flashcards_call_model
  by (auto simp: generateFlashcardsAI_def Let_def model_calls_def
      split: bool.splits option.splits if_splits)

lemma quiz_validate_length:
  "0 \<le> n \<Longrightarrow> result (quiz_validate parsed n) = Inr qs \<Longrightarrow> int (length qs) \<le> n"
  by (auto simp: quiz_validate_def length_slice0 split: json.splits list.splits if_splits)

lemma quiz_parse_body_length:
  "0 \<le> n \<Longrightarrow> result (quiz_parse_body w reply n) = Inr qs \<Longrightarrow> int (length qs) \<le> n"
  by (auto simp: quiz_parse_body_def Let_def dest: quiz_validate_length
      split: if_splits sum.splits)

lemma quiz_call_model_length:
  "0 \<le> n \<Longrightarrow> result (quiz_call_model w m p n) = Inr qs \<Longrightarrow> int (length qs) \<le> n"
  by (auto simp: quiz_call_model_def dest: quiz_parse_body_length split: model_outcome.splits)

lemma generateQuizAI_length:
  "result (generateQuizAI w t q) = Inr qs \<Longrightarrow> int (length qs) \<le> max 3 (min 15 q)"
  by (auto simp: generateQuizAI_def Let_def split: bool.splits option.splits if_splits
      dest!: quiz_call_model_length[rotated])

lemma generateQuizAI_clamp:
  "generateQuizAI w t q = generateQuizAI w t (max 3 (min 15 q))"
  unfolding generateQuizAI_def Let_def clamp_idem by (rule refl)

lemma model_calls_quiz_validate: "model_calls (quiz_validate parsed n) = []"
  by (auto simp: model_calls_def quiz_validate_def split: json.splits list.splits)

lemma model_calls_quiz_call_model:
  "model_calls (quiz_call_model w m p n) = [p]"
  using model_calls_quiz_validate
  by (auto simp: model_calls_def quiz_call_model_def quiz_parse_body_def Let_def
      split: model_outcome.splits sum.splits)

lemma generateQuizAI_calls:
  "model_calls (generateQuizAI w t q) = [] \<or>
   model_calls (generateQuizAI w t q) =
     [quiz_prompt (max 3 (min 15 q)) (substring t 0 MAX_TEXT_LENGTH)]"
  using model_calls_quiz_call_model
  by (auto simp: generateQuizAI_def Let_def model_calls_def
      split: bool.splits option.splits if_splits)

text \<open>
  Claim C1. Whatever count is requested, generateFlashcardsAI works with
  \<open>max 3 (min 25 c)\<close>, a number between 3 and 25, and generateQuizAI with
  \<open>max 3 (min 15 q)\<close>, a number between 3 and 15: the run for a requested count is the
  run for its clamped value (so no request fails for being out of range), the only prompt
  ever sent names the clamped count, and a returned sequence is never longer than the
  clamped count.
\<close>

theorem C1_count_is_clamped:
  "3 \<le> max 3 (min 25 c) \<and> max 3 (min 25 c) \<le> (25::int)
   \<and> generateFlashcardsAI w textContent c = generateFlashcardsAI w textContent (max 3 (min 25 c))
   \<and> (model_calls (generateFlashcardsAI w textContent c) = [] \<or>
        model_calls (generateFlashcardsAI w textContent c) =
          [flashcard_prompt (max 3 (min 25 c)) (substring textContent 0 MAX_TEXT_LENGTH)])
   \<and> (\<forall>cards. result (generateFlashcardsAI w textContent c) = Inr cards \<longrightarrow>
          int (length cards) \<le> max 3 (min 25 c))
   \<and> 3 \<le> max 3 (min 15 q) \<and> max 3 (min 15 q) \<le> (15::int)
   \<and> generateQuizAI w textContent q = generateQuizAI w textContent (max 3 (min 15 q))
   \<and> (model_calls (generateQuizAI w textContent q) = [] \<or>
        model_calls (generateQuizAI w textContent q) =
          [quiz_prompt (max 3 (min 15 q)) (substring textContent 0 MAX_TEXT_LENGTH)])
   \<and> (\<forall>questions. result (generateQuizAI w textContent q) = Inr questions \<longrightarrow>
          int (length questions) \<le> max 3 (min 15 q))"
proof -
  have "generateFlashcardsAI w textContent c = generateFlashcardsAI w textContent (max 3 (min 25 c))"
    by (rule generateFlashcardsAI_clamp)
  moreover have "generateQuizAI w textContent q = generateQuizAI w textContent (max 3 (min 15 q))"
    by (rule generateQuizAI_clamp)
  moreover note generateFlashcardsAI_calls [of w textContent c] generateQuizAI_calls [of w textContent q]
  moreover have "\<forall>cards. result (generateFlashcardsAI w textContent c) = Inr cards \<longrightarrow>
      int (length cards) \<le> max 3 (min 25 c)"
    by (blast intro: generateFlashcardsAI_length)
  moreover have "\<forall>questions. result (generateQuizAI w textContent q) = Inr questions \<longrightarrow>
      int (length questions) \<le> max 3 (min 15 q)"
    by (blast intro: generateQuizAI_length)
  moreover have "3 \<le> max 3 (min 25 c)" "max 3 (min 25 c) \<le> (25::int)"
    "3 \<le> max 3 (min 15 q)" "max 3 (min 15 q) \<le> (15::int)"
    by simp_all
  ultimately show ?thesis by blast
qed

lemma example_flashcards_over_production:
  "result (generateFlashcardsAI example_ai example_text 1) = Inr [JNum 1, JNum 2, JNum 3]"
  by (simp add: run_defs example_defs)

lemma example_quiz_over_production:
  "result (generateQuizAI example_ai example_text 100) =
     Inr [JNum 1, JNum 2, JNum 3, JNum 4]"
  by (simp add: run_defs example_defs)

theorem C1_count_is_clamped_witness:
  "result (generateFlashcardsAI example_ai example_text 1) = Inr [JNum 1, JNum 2, JNum 3]
   \<and> int (length [JNum 1, JNum 2, JNum 3]) \<le> max 3 (min 25 1)
   \<and> result (generateQuizAI example_ai example_text 100) = Inr [JNum 1, JNum 2, JNum 3, JNum 4]
   \<and> int (length [JNum 1, JNum 2, JNum 3, JNum 4]) \<le> max 3 (min 15 100)"
  using C1_count_is_clamped [of 1 example_ai example_text 100]
    example_flashcards_over_production example_quiz_over_production
  by simp

section \<open>Boundary extraction\<close>

text \<open>\<open>indexOf\<close> and \<open>lastIndexOf\<close> find the first and the last occurrence.\<close>

lemma indexOf_notin: "c \<notin> set s \<Longrightarrow> indexOf s c = - 1"
  by (induction s) auto

lemma indexOf_in: "c \<in> set s \<Longrightarrow> indexOf s c = int (first_position c s)"
  by (induction s) (auto simp: first_position_def indexOf_notin)

lemma first_position_less: "c \<in> set s \<Longrightarrow> first_position c s < length s"
  by (induction s) (auto simp: first_position_def)

lemma first_position_nth: "c \<in> set s \<Longrightarrow> s ! first_position c s = c"
  by (induction s) (auto simp: first_position_def)

lemma first_position_least: "k < first_position c s \<Longrightarrow> s ! k \<noteq> c"
proof (induction s arbitrary: k)
  case Nil
  then show ?case by (simp add: first_position_def)
next
  case (Cons x xs)
  then show ?case
    by (cases k) (auto simp: first_position_def split: if_splits)
qed

lemma lastIndexOf_notin: "c \<notin> set s \<Longrightarrow> lastIndexOf s c = - 1"
  by (simp add: lastIndexOf_def indexOf_notin)

lemma lastIndexOf_in: "c \<in> set s \<Longrightarrow> lastIndexOf s c = int (last_position c s)"
  using first_position_less[of c "rev s"]
  by (auto simp: lastIndexOf_def indexOf_in last_position_def first_position_def)

lemma last_position_less: "c \<in> set s \<Longrightarrow> last_position c s < length s"
  by (cases s) (auto simp: last_position_def)

lemma last_position_nth: "c \<in> set s \<Longrightarrow> s ! last_position c s = c"
  using first_position_nth[of c "rev s"] first_position_less[of c "rev s"]
  by (simp add: last_position_def first_position_def rev_nth)

lemma last_position_greatest:
  assumes "last_position c s < k" "k < length s" shows "s ! k \<noteq> c"
proof -
  have "length s - 1 - k < first_position c (rev s)"
    using assms by (simp add: last_position_def first_position_def)
  then have "rev s ! (length s - 1 - k) \<noteq> c" by (rule first_position_least)
  then show ?thesis using assms by (simp add: rev_nth)
qed

lemma substring_between:
  assumes "i \<le> j" "j < length s"
  shows "substring s (int i) (int j + 1) = drop i (take (Suc j) s)"
proof -
  have "nat (int j + 1 - int i) = Suc j - i" "nat (int j + 1) = Suc j"
    using assms by auto
  then show ?thesis using assms
    by (simp add: substring_def Let_def drop_take min_def max_def)
qed

lemma flashcards_parse_body_no_array:
  assumes "91 \<notin> set reply \<or> 93 \<notin> set reply \<or> last_position 93 reply < first_position 91 reply"
  shows "flashcards_parse_body w reply n = throw (lit ''KI-Antwort (Flashcards) ohne JSON-Array.'')"
  using assms
  by (cases "91 \<in> set reply"; cases "93 \<in> set reply")
     (auto simp: flashcards_parse_body_def Let_def indexOf_notin lastIndexOf_notin indexOf_in lastIndexOf_in)

lemma flashcards_parse_body_array:
  assumes "91 \<in> set reply" "93 \<in> set reply" "first_position 91 reply \<le> last_position 93 reply"
  shows "flashcards_parse_body w reply n =
     after [JsonParse (drop (first_position 91 reply) (take (Suc (last_position 93 reply)) reply))]
       (case JSON_parse w (drop (first_position 91 reply) (take (Suc (last_position 93 reply)) reply)) of
          Inl syntax_error \<Rightarrow> throw syntax_error
        | Inr (JArr flashcards) \<Rightarrow> succeed (slice0 flashcards n)
        | Inr _ \<Rightarrow> throw (lit ''KI-Antwort (Flashcards) kein Array.''))"
  using assms substring_between[OF assms(3) last_position_less[OF assms(2)]]
  by (simp add: flashcards_parse_body_def Let_def indexOf_in lastIndexOf_in)

lemma quiz_parse_body_no_array:
  assumes "91 \<notin> set reply \<or> 93 \<notin> set reply \<or> last_position 93 reply < first_position 91 reply"
  shows "quiz_parse_body w reply n = throw (lit ''KI-Antwort (Quiz) ohne JSON-Array.'')"
  using assms
  by (cases "91 \<in> set reply"; cases "93 \<in> set reply")
     (auto simp: quiz_parse_body_def Let_def indexOf_notin lastIndexOf_notin indexOf_in lastIndexOf_in)

lemma quiz_parse_body_array:
  assumes "91 \<in> set reply" "93 \<in> set reply" "first_position 91 reply \<le> last_position 93 reply"
  shows "quiz_parse_body w reply n =
     after [JsonParse (drop (first_position 91 reply) (take (Suc (last_position 93 reply)) reply))]
       (case JSON_parse w (drop (first_position 91 reply) (take (Suc (last_position 93 reply)) reply)) of
          Inl syntax_error \<Rightarrow> throw syntax_error
        | Inr parsed \<Rightarrow> quiz_validate parsed n)"
  using assms substring_between[OF assms(3) last_position_less[OF assms(2)]]
  by (simp add: quiz_parse_body_def Let_def indexOf_in lastIndexOf_in)

lemma parse_calls_quiz_validate [simp]: "parse_calls (quiz_validate parsed n) = []"
  by (auto simp: quiz_validate_def parse_calls_def split: json.splits list.splits)

lemma parse_calls_flashcards_array:
  assumes "91 \<in> set reply" "93 \<in> set reply" "first_position 91 reply \<le> last_position 93 reply"
  shows "parse_calls (flashcards_parse_body w reply n) =
     [drop (first_position 91 reply) (take (Suc (last_position 93 reply)) reply)]"
  by (simp add: flashcards_parse_body_array[OF assms] split: sum.splits json.splits)

lemma parse_calls_quiz_array:
  assumes "91 \<in> set reply" "93 \<in> set reply" "first_position 91 reply \<le> last_position 93 reply"
  shows "parse_calls (quiz_parse_body w reply n) =
     [drop (first_position 91 reply) (take (Suc (last_position 93 reply)) reply)]"
  by (simp add: quiz_parse_body_array[OF assms] split: sum.splits)

text \<open>
  Claim C2. Let the model be configured, the text long enough for a model call, and
  \<open>reply\<close> the text the model answers to the prompt. If \<open>reply\<close> has no \<open>[\<close> (code unit
  91), or no \<open>]\<close> (93), or its last \<open>]\<close> stands before its first \<open>[\<close>, both generators fail
  with the error of the missing array, wrapped by the message of the unreadable answer,
  and \<open>JSON.parse\<close> is not called. Otherwise \<open>JSON.parse\<close> is called once, with exactly the
  part of \<open>reply\<close> from its first \<open>[\<close> to its last \<open>]\<close>, both included.
\<close>

theorem C2_boundary_extraction:
  assumes "genAI w" and "modelFlashcard w = Some cardModel" and "modelQuiz w = Some quizModel"
    and "10 \<le> length (trim cardText)" and "50 \<le> length (trim quizText)"
    and "cardModel (flashcard_prompt (max 3 (min 25 c)) (take 25000 cardText)) = Content reply"
    and "quizModel (quiz_prompt (max 3 (min 15 q)) (take 25000 quizText)) = Content reply"
  shows
    "if 91 \<notin> set reply \<or> 93 \<notin> set reply \<or> last_position 93 reply < first_position 91 reply
     then result (generateFlashcardsAI w cardText c) =
            Inl (Error (lit ''KI-Antwort (Flashcards) nicht lesbar: '' @
                        lit ''KI-Antwort (Flashcards) ohne JSON-Array.''))
        \<and> parse_calls (generateFlashcardsAI w cardText c) = []
        \<and> result (generateQuizAI w quizText q) =
            Inl (Error (lit ''Konnte das Quiz aus der KI-Antwort nicht korrekt extrahieren: '' @
                        lit ''KI-Antwort (Quiz) ohne JSON-Array.''))
        \<and> parse_calls (generateQuizAI w quizText q) = []
     else parse_calls (generateFlashcardsAI w cardText c) =
            [drop (first_position 91 reply) (take (Suc (last_position 93 reply)) reply)]
        \<and> parse_calls (generateQuizAI w quizText q) =
            [drop (first_position 91 reply) (take (Suc (last_position 93 reply)) reply)]"
proof -
  note cards = generateFlashcardsAI_proceeds [OF assms(1,2,4), of c]
  note quiz = generateQuizAI_proceeds [OF assms(1,3,5), of q]
  show ?thesis
  proof (cases "91 \<notin> set reply \<or> 93 \<notin> set reply \<or>
      last_position 93 reply < first_position 91 reply")
    case True
    have "result (generateFlashcardsAI w cardText c) =
        Inl (Error (lit ''KI-Antwort (Flashcards) nicht lesbar: '' @
                    lit ''KI-Antwort (Flashcards) ohne JSON-Array.''))"
      by (simp add: cards flashcards_call_model_def assms(6)
          flashcards_parse_body_no_array[OF True] catch_rethrow_def or_default_def lit_def)
    moreover have "parse_calls (generateFlashcardsAI w cardText c) = []"
      by (simp add: cards flashcards_call_model_def assms(6)
          flashcards_parse_body_no_array[OF True])
    moreover have "result (generateQuizAI w quizText q) =
        Inl (Error (lit ''Konnte das Quiz aus der KI-Antwort nicht korrekt extrahieren: '' @
                    lit ''KI-Antwort (Quiz) ohne JSON-Array.''))"
      by (simp add: quiz quiz_call_model_def assms(7)
          quiz_parse_body_no_array[OF True] catch_rethrow_def or_default_def lit_def)
    moreover have "parse_calls (generateQuizAI w quizText q) = []"
      by (simp add: quiz quiz_call_model_def assms(7) quiz_parse_body_no_array[OF True])
    ultimately show ?thesis using True by simp
  next
    case False
    then have in_reply: "91 \<in> set reply" "93 \<in> set reply"
      "first_position 91 reply \<le> last_position 93 reply" by auto
    have "parse_calls (generateFlashcardsAI w cardText c) =
        [drop (first_position 91 reply) (take (Suc (last_position 93 reply)) reply)]"
      by (simp add: cards flashcards_call_model_def assms(6)
          parse_calls_flashcards_array[OF in_reply])
    moreover have "parse_calls (generateQuizAI w quizText q) =
        [drop (first_position 91 reply) (take (Suc (last_position 93 reply)) reply)]"
      by (simp add: quiz quiz_call_model_def assms(7) parse_calls_quiz_array[OF in_reply])
    ultimately show ?thesis using False by simp
  qed
qed

theorem C2_boundary_extraction_witness:
  "parse_calls (generateFlashcardsAI example_ai example_text 5) = [lit ''[1, 2, 3, 4]'']
   \<and> parse_calls (generateQuizAI example_ai example_text 5) = [lit ''[1, 2, 3, 4]'']
   \<and> result (generateFlashcardsAI backwards_ai example_text 5) =
         Inl (Error (lit ''KI-Antwort (Flashcards) nicht lesbar: '' @
                     lit ''KI-Antwort (Flashcards) ohne JSON-Array.''))
   \<and> result (generateQuizAI backwards_ai example_text 5) =
         Inl (Error (lit ''Konnte das Quiz aus der KI-Antwort nicht korrekt extrahieren: '' @
                     lit ''KI-Antwort (Quiz) ohne JSON-Array.''))"
proof -
  have long: "10 \<le> length (trim example_text)" "50 \<le> length (trim example_text)"
    by (simp_all add: example_text_def trim_def lit_def is_white_space_def)
  have "genAI example_ai"
    "modelFlashcard example_ai = Some (\<lambda>prompt. Content (lit ''Sure: [1, 2, 3, 4] ok?''))"
    "modelQuiz example_ai = Some (\<lambda>prompt. Content (lit ''Sure: [1, 2, 3, 4] ok?''))"
    by (simp_all add: example_ai_def)
  from C2_boundary_extraction [OF this long refl refl, of 5 5]
  have found: "parse_calls (generateFlashcardsAI example_ai example_text 5) = [lit ''[1, 2, 3, 4]'']
      \<and> parse_calls (generateQuizAI example_ai example_text 5) = [lit ''[1, 2, 3, 4]'']"
    by (simp add: lit_def first_position_def last_position_def)
  have "genAI backwards_ai"
    "modelFlashcard backwards_ai = Some (\<lambda>prompt. Content (lit ''] nothing [''))"
    "modelQuiz backwards_ai = Some (\<lambda>prompt. Content (lit ''] nothing [''))"
    by (simp_all add: backwards_ai_def)
  from C2_boundary_extraction [OF this long refl refl, of 5 5]
  have "result (generateFlashcardsAI backwards_ai example_text 5) =
         Inl (Error (lit ''KI-Antwort (Flashcards) nicht lesbar: '' @
                     lit ''KI-Antwort (Flashcards) ohne JSON-Array.''))
   \<and> result (generateQuizAI backwards_ai example_text 5) =
         Inl (Error (lit ''Konnte das Quiz aus der KI-Antwort nicht korrekt extrahieren: '' @
                     lit ''KI-Antwort (Quiz) ohne JSON-Array.''))"
    by (simp add: lit_def first_position_def last_position_def)
  with found show ?thesis by simp
qed

section \<open>The short-text guard\<close>



section \<open>Truncation of the text\<close>

text \<open>
  Claim C5. With the model configured and the text long enough for a model call, the one
  prompt sent by either generator is a fixed text that names the clamped count, then
  \<open>take 25000 textContent\<close>, then a fixed closing text: the prompt contains the first 25000
  code units of a longer text and nothing else of it, and the whole of a text of at most
  25000. A longer text only adds a warning to the log; the run is otherwise the model call
  on that prompt, whose outcome it returns.
\<close>

theorem C5_text_truncated_to_bound:
  assumes "genAI w" and "modelFlashcard w = Some cardModel" and "modelQuiz w = Some quizModel"
    and "10 \<le> length (trim cardText)" and "50 \<le> length (trim quizText)"
  shows "generateFlashcardsAI w cardText c =
           after (if 25000 < length cardText then [ConsoleWarn (lit ''Text truncated.'')] else [])
             (catch_rethrow (\<lambda>m. or_default m (lit ''KI-Fehler (Flashcards).''))
                (flashcards_call_model w cardModel
                   (lit ''Erstelle Lernkarten (Flashcards)... Erstelle maximal '' @
                    number_toString (max 3 (min 25 c)) @ lit '' Lernkarten... Text: --- '' @
                    take 25000 cardText @ lit '' --- JSON-Array:'')
                   (max 3 (min 25 c))))
       \<and> model_calls (generateFlashcardsAI w cardText c) =
           [lit ''Erstelle Lernkarten (Flashcards)... Erstelle maximal '' @
            number_toString (max 3 (min 25 c)) @ lit '' Lernkarten... Text: --- '' @
            take 25000 cardText @ lit '' --- JSON-Array:'']
       \<and> (length cardText \<le> 25000 \<longrightarrow>
            model_calls (generateFlashcardsAI w cardText c) =
              [lit ''Erstelle Lernkarten (Flashcards)... Erstelle maximal '' @
               number_toString (max 3 (min 25 c)) @ lit '' Lernkarten... Text: --- '' @
               cardText @ lit '' --- JSON-Array:''])
       \<and> (25000 < length cardText \<longrightarrow>
            model_calls (generateFlashcardsAI w cardText c) \<noteq>
              [lit ''Erstelle Lernkarten (Flashcards)... Erstelle maximal '' @
               number_toString (max 3 (min 25 c)) @ lit '' Lernkarten... Text: --- '' @
               cardText @ lit '' --- JSON-Array:''])
       \<and> generateQuizAI w quizText q =
           after (if 25000 < length quizText
                  then [ConsoleWarn (lit ''Text content truncated for quiz API call.'')] else [])
             (catch_rethrow
                (\<lambda>m. or_default m
                   (lit ''Fehler bei der Kommunikation mit dem KI-Dienst f'' @ [252] @
                    lit ''r das Quiz.''))
                (quiz_call_model w quizModel
                   (quiz_prompt_head @ number_toString (max 3 (min 15 q)) @ quiz_prompt_rules @
                    take 25000 quizText @ quiz_prompt_tail)
                   (max 3 (min 15 q))))
       \<and> model_calls (generateQuizAI w quizText q) =
           [quiz_prompt_head @ number_toString (max 3 (min 15 q)) @ quiz_prompt_rules @
            take 25000 quizText @ quiz_prompt_tail]
       \<and> (length quizText \<le> 25000 \<longrightarrow>
            model_calls (generateQuizAI w quizText q) =
              [quiz_prompt_head @ number_toString (max 3 (min 15 q)) @ quiz_prompt_rules @
               quizText @ quiz_prompt_tail])
       \<and> (25000 < length quizText \<longrightarrow>
            model_calls (generateQuizAI w quizText q) \<noteq>
              [quiz_prompt_head @ number_toString (max 3 (min 15 q)) @ quiz_prompt_rules @
               quizText @ quiz_prompt_tail])"
proof -
  note cards = generateFlashcardsAI_proceeds [OF assms(1,2,4), of c, unfolded flashcard_prompt_def]
  note quiz = generateQuizAI_proceeds [OF assms(1,3,5), of q, unfolded quiz_prompt_def]
  have card_calls: "model_calls (generateFlashcardsAI w cardText c) =
           [lit ''Erstelle Lernkarten (Flashcards)... Erstelle maximal '' @
            number_toString (max 3 (min 25 c)) @ lit '' Lernkarten... Text: --- '' @
            take 25000 cardText @ lit '' --- JSON-Array:'']"
    unfolding cards by (simp add: model_calls_flashcards_call_model)
  have quiz_calls: "model_calls (generateQuizAI w quizText q) =
           [quiz_prompt_head @ number_toString (max 3 (min 15 q)) @ quiz_prompt_rules @
            take 25000 quizText @ quiz_prompt_tail]"
    unfolding quiz by (simp add: model_calls_quiz_call_model)
  have "length cardText \<le> 25000 \<longrightarrow>
      model_calls (generateFlashcardsAI w cardText c) =
        [lit ''Erstelle Lernkarten (Flashcards)... Erstelle maximal '' @
         number_toString (max 3 (min 25 c)) @ lit '' Lernkarten... Text: --- '' @
         cardText @ lit '' --- JSON-Array:'']"
    unfolding card_calls by simp
  moreover have "25000 < length cardText \<longrightarrow>
      model_calls (generateFlashcardsAI w cardText c) \<noteq>
        [lit ''Erstelle Lernkarten (Flashcards)... Erstelle maximal '' @
         number_toString (max 3 (min 25 c)) @ lit '' Lernkarten... Text: --- '' @
         cardText @ lit '' --- JSON-Array:'']"
    unfolding card_calls by (simp add: take_all_iff)
  moreover have "length quizText \<le> 25000 \<longrightarrow>
      model_calls (generateQuizAI w quizText q) =
        [quiz_prompt_head @ number_toString (max 3 (min 15 q)) @ quiz_prompt_rules @
         quizText @ quiz_prompt_tail]"
    unfolding quiz_calls by simp
  moreover have "25000 < length quizText \<longrightarrow>
      model_calls (generateQuizAI w quizText q) \<noteq>
        [quiz_prompt_head @ number_toString (max 3 (min 15 q)) @ quiz_prompt_rules @
         quizText @ quiz_prompt_tail]"
    unfolding quiz_calls by (simp add: take_all_iff)
  ultimately show ?thesis using cards quiz card_calls quiz_calls by blast
qed

lemma trim_replicate_x: "trim (replicate n 120) = replicate n 120"
  by (simp add: trim_def is_white_space_def)

theorem C5_text_truncated_to_bound_witness:
  "model_calls (generateFlashcardsAI example_ai (replicate 30000 120) 5) =
     [lit ''Erstelle Lernkarten (Flashcards)... Erstelle maximal 5 Lernkarten... Text: --- '' @
      replicate 25000 120 @ lit '' --- JSON-Array:'']
   \<and> model_calls (generateQuizAI example_ai (replicate 30000 120) 5) =
     [quiz_prompt_head @ lit ''5'' @ quiz_prompt_rules @ replicate 25000 120 @ quiz_prompt_tail]
   \<and> model_calls (generateFlashcardsAI example_ai (replicate 20 120) 5) =
     [lit ''Erstelle Lernkarten (Flashcards)... Erstelle maximal 5 Lernkarten... Text: --- '' @
      replicate 20 120 @ lit '' --- JSON-Array:'']"
proof -
  have ai: "genAI example_ai"
    "modelFlashcard example_ai = Some (\<lambda>prompt. Content (lit ''Sure: [1, 2, 3, 4] ok?''))"
    "modelQuiz example_ai = Some (\<lambda>prompt. Content (lit ''Sure: [1, 2, 3, 4] ok?''))"
    by (simp_all add: example_ai_def)
  have long: "10 \<le> length (trim (replicate 30000 120))" "50 \<le> length (trim (replicate 30000 120))"
    "10 \<le> length (trim (replicate 20 120))"
    by (simp_all add: trim_replicate_x)
  have five: "number_toString 5 = lit ''5''" by (simp add: number_toString_def lit_def)
  note long_run = C5_text_truncated_to_bound [OF ai long(1,2), of 5 5]
  note short_run = C5_text_truncated_to_bound [OF ai long(3,2), of 5 5]
  have "model_calls (generateFlashcardsAI example_ai (replicate 30000 120) 5) =
     [lit ''Erstelle Lernkarten (Flashcards)... Erstelle maximal 5 Lernkarten... Text: --- '' @
      replicate 25000 120 @ lit '' --- JSON-Array:'']"
    using long_run [THEN conjunct2, THEN conjunct1] by (simp add: five lit_def)
  moreover have "model_calls (generateQuizAI example_ai (replicate 30000 120) 5) =
     [quiz_prompt_head @ lit ''5'' @ quiz_prompt_rules @ replicate 25000 120 @ quiz_prompt_tail]"
    using long_run [THEN conjunct2, THEN conjunct2, THEN conjunct2, THEN conjunct2,
        THEN conjunct2, THEN conjunct1]
    by (simp add: five)
  moreover have "model_calls (generateFlashcardsAI example_ai (replicate 20 120) 5) =
     [lit ''Erstelle Lernkarten (Flashcards)... Erstelle maximal 5 Lernkarten... Text: --- '' @
      replicate 20 120 @ lit '' --- JSON-Array:'']"
    using short_run [THEN conjunct2, THEN conjunct1] by (simp add: five lit_def)
  ultimately show ?thesis by simp
qed

section \<open>URLs of binary files\<close>

lemma startsWith_nonempty: "startsWith url (lit ''http'') \<Longrightarrow> url \<noteq> []"
  by (auto simp: startsWith_def lit_def)

lemma endsWith_append: "endsWith (s @ p) p"
  by (simp add: endsWith_def startsWith_def)

lemma binary_url_test_suffix:
  assumes "ext \<in> set binary_extensions" and "map ascii_lower dot_ext = 46 # ext"
  shows "binary_url_test (stem @ dot_ext)"
proof -
  have "endsWith (map ascii_lower (stem @ dot_ext)) (46 # ext)"
    using assms(2) endsWith_append[of "map ascii_lower stem" "46 # ext"] by simp
  then show ?thesis using assms(1) by (auto simp: binary_url_test_def list_ex_iff)
qed

text \<open>
  Claim C4, as amended. A URL string that begins with \<open>http\<close> and that itself, query and
  fragment included, ends in a dot and one of the extensions jpg, jpeg, png, gif, mp3,
  mp4, zip, exe, dmg (in either ASCII case) is not fetched: extractText has no effect and
  resolves with the placeholder that quotes the URL.
\<close>

theorem C4_binary_url_short_circuits:
  assumes "startsWith url (lit ''http'')"
    and "ext \<in> set binary_extensions"
    and "url = stem @ dot_ext" and "map ascii_lower dot_ext = 46 # ext"
  shows "extractText e (UrlInput url) =
           \<lparr>events = [],
            result = Inr (lit ''[Bin'' @ [228] @ lit ''rdatei ('' @ url @ lit '')]'')\<rparr>"
  using assms(1) startsWith_nonempty[OF assms(1)] binary_url_test_suffix[OF assms(2,4), of stem] assms(3)
  by (simp add: extractText_def extract_url_body_def after_def succeed_def)

text \<open>
  The claim as stated fails: the path of this URL ends in \<open>.jpg\<close>, the URL string does
  not, and the URL is fetched.
\<close>

theorem C4_path_with_query_is_fetched:
  "endsWith (spec_url_path (lit ''http://example.com/a.jpg?x=1'')) (lit ''.jpg'')
   \<and> http_calls (extractText example_env (UrlInput (lit ''http://example.com/a.jpg?x=1''))) =
       [lit ''http://example.com/a.jpg?x=1'']"
  by (simp add: spec_url_path_def endsWith_def startsWith_def lit_def
      extractText_def extract_url_body_def example_env_def binary_url_test_def binary_extensions_def
      ascii_lower_def truthy_def show_optional_def http_calls_def after_def succeed_def throw_def Let_def)

theorem C4_binary_url_short_circuits_witness:
  "extractText example_env (UrlInput (lit ''http://example.com/movie.MP4'')) =
     \<lparr>events = [],
      result = Inr (lit ''[Bin'' @ [228] @ lit ''rdatei (http://example.com/movie.MP4)]'')\<rparr>"
proof -
  have "startsWith (lit ''http://example.com/movie.MP4'') (lit ''http'')"
    by (simp add: startsWith_def lit_def)
  moreover have "lit ''mp4'' \<in> set binary_extensions" by (simp add: binary_extensions_def)
  moreover have "lit ''http://example.com/movie.MP4'' = lit ''http://example.com/movie'' @ lit ''.MP4''"
    by (simp add: lit_def)
  moreover have "map ascii_lower (lit ''.MP4'') = 46 # lit ''mp4''"
    by (simp add: lit_def ascii_lower_def)
  ultimately show ?thesis
    using C4_binary_url_short_circuits [of "lit ''http://example.com/movie.MP4''" "lit ''mp4''"
        "lit ''http://example.com/movie''" "lit ''.MP4''" example_env]
    by (simp add: lit_def)
qed

section \<open>Truncation of the result\<close>

lemma slice0_take: "0 \<le> n \<Longrightarrow> slice0 xs n = take (nat n) xs"
  by (simp add: slice0_def)

lemma parse_calls_flashcards_parse_body:
  "parse_calls (flashcards_parse_body w reply n) = [s] \<Longrightarrow> JSON_parse w s = Inr (JArr parsed) \<Longrightarrow>
   result (flashcards_parse_body w reply n) = Inr (slice0 parsed n)"
  by (auto simp: flashcards_parse_body_def Let_def split: if_splits)

lemma parse_calls_flashcards_call_model:
  "parse_calls (flashcards_call_model w m p n) = [s] \<Longrightarrow> JSON_parse w s = Inr (JArr parsed) \<Longrightarrow>
   result (flashcards_call_model w m p n) = Inr (slice0 parsed n)"
  by (auto simp: flashcards_call_model_def dest: parse_calls_flashcards_parse_body
      split: model_outcome.splits)

lemma generateFlashcardsAI_prefix:
  assumes "parse_calls (generateFlashcardsAI w t c) = [s]" "JSON_parse w s = Inr (JArr parsed)"
  shows "result (generateFlashcardsAI w t c) = Inr (take (nat (max 3 (min 25 c))) parsed)"
proof -
  have "0 \<le> max 3 (min 25 c)" by simp
  from slice0_take[OF this] assms show ?thesis
    by (auto simp: generateFlashcardsAI_def Let_def 
        split: bool.splits option.splits if_splits dest!: parse_calls_flashcards_call_model)
qed

lemma quiz_validate_prefix:
  "result (quiz_validate (JArr parsed) n) = Inr qs \<Longrightarrow> qs = slice0 parsed n"
  by (auto simp: quiz_validate_def split: list.splits if_splits)

lemma quiz_validate_not_null:
  "parsed = [] \<or> hd parsed \<noteq> JNull \<Longrightarrow> result (quiz_validate (JArr parsed) n) = Inr (slice0 parsed n)"
  by (auto simp: quiz_validate_def split: list.splits if_splits)

lemma parse_calls_quiz_parse_body:
  "parse_calls (quiz_parse_body w reply n) = [s] \<Longrightarrow> JSON_parse w s = Inr (JArr parsed) \<Longrightarrow>
   result (quiz_parse_body w reply n) = result (quiz_validate (JArr parsed) n)"
  by (auto simp: quiz_parse_body_def Let_def split: if_splits)

lemma parse_calls_quiz_call_model:
  "parse_calls (quiz_call_model w m p n) = [s] \<Longrightarrow> JSON_parse w s = Inr (JArr parsed) \<Longrightarrow>
   result (quiz_call_model w m p n) = Inr qs \<Longrightarrow> qs = slice0 parsed n"
  by (auto simp: quiz_call_model_def dest!: parse_calls_quiz_parse_body quiz_validate_prefix
      split: model_outcome.splits)

lemma generateQuizAI_prefix:
  assumes "parse_calls (generateQuizAI w t q) = [s]" "JSON_parse w s = Inr (JArr parsed)"
    "result (generateQuizAI w t q) = Inr qs"
  shows "qs = take (nat (max 3 (min 15 q))) parsed"
proof -
  have "0 \<le> max 3 (min 15 q)" by simp
  from slice0_take[OF this] assms show ?thesis
    by (auto simp: generateQuizAI_def Let_def 
        split: bool.splits option.splits if_splits dest!: parse_calls_quiz_call_model)
qed

text \<open>
  Claim C6, as amended. When \<open>JSON.parse\<close> has returned an array, what generateFlashcardsAI
  returns is the prefix of that array of length at most the clamped count
  \<open>max 3 (min 25 c)\<close>, and what generateQuizAI returns, when it returns, is the prefix of
  length at most \<open>max 3 (min 15 q)\<close>. The length stays within the requested count itself
  when that count is at least 3.
\<close>

theorem C6_result_is_prefix_of_clamped_length:
  "(parse_calls (generateFlashcardsAI w textContent c) = [s] \<and>
    JSON_parse w s = Inr (JArr parsed) \<longrightarrow>
      result (generateFlashcardsAI w textContent c) = Inr (take (nat (max 3 (min 25 c))) parsed)
      \<and> int (length (take (nat (max 3 (min 25 c))) parsed)) \<le> max 3 (min 25 c)
      \<and> (3 \<le> c \<longrightarrow> int (length (take (nat (max 3 (min 25 c))) parsed)) \<le> c))
   \<and> (parse_calls (generateQuizAI w textContent q) = [s] \<and>
      JSON_parse w s = Inr (JArr parsed) \<and>
      result (generateQuizAI w textContent q) = Inr questions \<longrightarrow>
        questions = take (nat (max 3 (min 15 q))) parsed
        \<and> int (length questions) \<le> max 3 (min 15 q)
        \<and> (3 \<le> q \<longrightarrow> int (length questions) \<le> q))"
proof -
  have "int (length (take (nat (max 3 (min 25 c))) parsed)) \<le> max 3 (min 25 c)" by simp
  moreover have "3 \<le> c \<longrightarrow> int (length (take (nat (max 3 (min 25 c))) parsed)) \<le> c" by auto
  moreover have "int (length (take (nat (max 3 (min 15 q))) parsed)) \<le> max 3 (min 15 q)" by simp
  moreover have "3 \<le> q \<longrightarrow> int (length (take (nat (max 3 (min 15 q))) parsed)) \<le> q" by auto
  ultimately show ?thesis
    using generateFlashcardsAI_prefix[of w textContent c s parsed]
      generateQuizAI_prefix[of w textContent q s parsed questions]
    by blast
qed

text \<open>The claim as stated fails: one card is requested, and three are returned.\<close>

theorem C6_more_than_requested:
  "result (generateFlashcardsAI example_ai example_text 1) = Inr [JNum 1, JNum 2, JNum 3]
   \<and> (1::int) < int (length [JNum 1, JNum 2, JNum 3])"
  by (simp add: run_defs example_defs)

lemma example_parse_calls:
  "parse_calls (generateFlashcardsAI example_ai example_text 4) = [lit ''[1, 2, 3, 4]'']"
  "parse_calls (generateQuizAI example_ai example_text 3) = [lit ''[1, 2, 3, 4]'']"
  "result (generateQuizAI example_ai example_text 3) = Inr [JNum 1, JNum 2, JNum 3]"
  "JSON_parse example_ai (lit ''[1, 2, 3, 4]'') = Inr (JArr [JNum 1, JNum 2, JNum 3, JNum 4])"
  by (simp_all add: run_defs example_defs)

theorem C6_result_is_prefix_of_clamped_length_witness:
  "result (generateFlashcardsAI example_ai example_text 4) =
     Inr (take 4 [JNum 1, JNum 2, JNum 3, JNum 4])
   \<and> result (generateQuizAI example_ai example_text 3) =
     Inr (take 3 [JNum 1, JNum 2, JNum 3, JNum 4])
   \<and> int (length (take 3 [JNum 1, JNum 2, JNum 3, JNum 4])) \<le> 3"
  using C6_result_is_prefix_of_clamped_length [of example_ai example_text 4 "lit ''[1, 2, 3, 4]''"
      "[JNum 1, JNum 2, JNum 3, JNum 4]" 3 "[JNum 1, JNum 2, JNum 3]"]
    example_parse_calls
  by simp

section \<open>Records that violate the schema\<close>

lemma flashcards_pass_through:
  assumes "parse_calls (generateFlashcardsAI w t c) = [s]" "JSON_parse w s = Inr (JArr parsed)"
  shows "result (generateFlashcardsAI w t c) = Inr (take (nat (max 3 (min 25 c))) parsed)"
  using assms by (rule generateFlashcardsAI_prefix)

lemma quiz_call_model_pass_through:
  "parse_calls (quiz_call_model w m p n) = [s] \<Longrightarrow> JSON_parse w s = Inr (JArr parsed) \<Longrightarrow>
   parsed = [] \<or> hd parsed \<noteq> JNull \<Longrightarrow>
   result (quiz_call_model w m p n) = Inr (slice0 parsed n)"
  by (auto simp: quiz_call_model_def
      dest!: parse_calls_quiz_parse_body quiz_validate_not_null [of parsed n]
      split: model_outcome.splits)

text \<open>
  Unless its first element is \<open>null\<close>, the parsed array passes the advisory check of
  generateQuizAI whatever its records look like.
\<close>

lemma quiz_pass_through:
  assumes "parse_calls (generateQuizAI w t q) = [s]" "JSON_parse w s = Inr (JArr parsed)"
    "parsed = [] \<or> hd parsed \<noteq> JNull"
  shows "result (generateQuizAI w t q) = Inr (take (nat (max 3 (min 15 q))) parsed)"
proof -
  have "0 \<le> max 3 (min 15 q)" by simp
  from slice0_take[OF this] assms show ?thesis
    by (auto simp: generateQuizAI_def Let_def slice0_def
        split: bool.splits option.splits if_splits dest!: quiz_call_model_pass_through)
qed

text \<open>
  Claim C8 at the input where the code departs from it. The model answers \<open>[null]\<close>, which
  parses as an array. generateFlashcardsAI returns that array; generateQuizAI fails,
  because reading \<open>question\<close> of the first element throws inside the inner \<open>try\<close>.
\<close>

theorem C8_null_first_question_fails:
  "result (generateQuizAI null_ai example_text 5) =
     Inl (Error (lit ''Konnte das Quiz aus der KI-Antwort nicht korrekt extrahieren: '' @
                 null_property_TypeError))
   \<and> result (generateFlashcardsAI null_ai example_text 5) = Inr [JNull]"
  by (simp add: run_defs null_ai_def example_defs)

section \<open>Inline text\<close>

lemma extractText_text: "extractText e (TextInput d) = \<lparr>events = [], result = Inr d\<rparr>"
  by (simp add: extractText_def or_default_def succeed_def)

lemma select_input_blank_text:
  "body_inputType req = Some (lit ''text'') \<Longrightarrow> body_textData req = Some d \<Longrightarrow> trim d = [] \<Longrightarrow>
   select_input req = Inl (Error (lit ''Kein Text.''))"
  by (simp add: select_input_def)

lemma select_input_text:
  "body_inputType req = Some (lit ''text'') \<Longrightarrow> body_textData req = Some d \<Longrightarrow> trim d \<noteq> [] \<Longrightarrow>
   select_input req = Inr (Some (TextInput d))"
  by (simp add: select_input_def)

text \<open>
  Claim C7, as amended. extractText returns inline text as it is, without trimming it and
  without any effect. Both routes answer a text that trims to the empty string with the
  error \<open>Kein Text.\<close> before anything else happens, and hand any other text, untrimmed, to
  the generator.
\<close>

theorem C7_inline_text_passed_untrimmed:
  "extractText e (TextInput d) = \<lparr>events = [], result = Inr d\<rparr>
   \<and> (body_inputType req = Some (lit ''text'') \<and> body_textData req = Some d \<and> trim d = [] \<longrightarrow>
        api_generate w e req =
          \<lparr>effects = [], http_status = 500, body = ErrorBody (lit ''Kein Text.'')\<rparr>
        \<and> api_generate_quiz w e req =
          \<lparr>effects = [], http_status = 500, body = ErrorBody (lit ''Kein Text.'')\<rparr>)
   \<and> (body_inputType req = Some (lit ''text'') \<and> body_textData req = Some d \<and> trim d \<noteq> [] \<longrightarrow>
        effects (api_generate w e req) =
          events (generateFlashcardsAI w d (parseInt_or (body_maxCards req) 15))
        \<and> body (api_generate w e req) =
          (case result (generateFlashcardsAI w d (parseInt_or (body_maxCards req) 15)) of
             Inl err \<Rightarrow> ErrorBody (or_default (message err) (lit ''Serverfehler (Flashcards).''))
           | Inr flashcards \<Rightarrow> Flashcards flashcards)
        \<and> effects (api_generate_quiz w e req) =
          events (generateQuizAI w d (parseInt_or (body_numQuestions req) 5))
        \<and> body (api_generate_quiz w e req) =
          (case result (generateQuizAI w d (parseInt_or (body_numQuestions req) 5)) of
             Inl err \<Rightarrow> ErrorBody (or_default (message err) (lit ''Serverfehler (Quiz).''))
           | Inr quizQuestions \<Rightarrow> Quiz quizQuestions))"
proof -
  have "api_generate w e req =
          \<lparr>effects = [], http_status = 500, body = ErrorBody (lit ''Kein Text.'')\<rparr>
        \<and> api_generate_quiz w e req =
          \<lparr>effects = [], http_status = 500, body = ErrorBody (lit ''Kein Text.'')\<rparr>"
    if "body_inputType req = Some (lit ''text'')" "body_textData req = Some d" "trim d = []"
    using select_input_blank_text[OF that]
    by (simp add: api_generate_def api_generate_quiz_def or_default_def lit_def)
  moreover have "effects (api_generate w e req) =
          events (generateFlashcardsAI w d (parseInt_or (body_maxCards req) 15))
        \<and> body (api_generate w e req) =
          (case result (generateFlashcardsAI w d (parseInt_or (body_maxCards req) 15)) of
             Inl err \<Rightarrow> ErrorBody (or_default (message err) (lit ''Serverfehler (Flashcards).''))
           | Inr flashcards \<Rightarrow> Flashcards flashcards)
        \<and> effects (api_generate_quiz w e req) =
          events (generateQuizAI w d (parseInt_or (body_numQuestions req) 5))
        \<and> body (api_generate_quiz w e req) =
          (case result (generateQuizAI w d (parseInt_or (body_numQuestions req) 5)) of
             Inl err \<Rightarrow> ErrorBody (or_default (message err) (lit ''Serverfehler (Quiz).''))
           | Inr quizQuestions \<Rightarrow> Quiz quizQuestions)"
    if "body_inputType req = Some (lit ''text'')" "body_textData req = Some d" "trim d \<noteq> []"
    using select_input_text[OF that]
    by (simp add: api_generate_def api_generate_quiz_def extractText_text Let_def split: sum.splits)
  ultimately show ?thesis using extractText_text by blast
qed

text \<open>The claim as stated fails: the text returned keeps its surrounding blanks.\<close>

theorem C7_blanks_are_kept:
  "result (extractText example_env (TextInput (lit ''  hi  ''))) = Inr (lit ''  hi  '')
   \<and> trim (lit ''  hi  '') = lit ''hi''
   \<and> lit ''  hi  '' \<noteq> lit ''hi''"
  by (simp add: extractText_text trim_def is_white_space_def lit_def)

lemma example_text_not_blank: "trim example_text \<noteq> []"
  by (simp add: example_text_def trim_def is_white_space_def lit_def)

theorem C7_inline_text_passed_untrimmed_witness:
  "api_generate example_ai example_env blank_request =
     \<lparr>effects = [], http_status = 500, body = ErrorBody (lit ''Kein Text.'')\<rparr>
   \<and> effects (api_generate example_ai example_env text_request) =
       events (generateFlashcardsAI example_ai example_text 15)
   \<and> model_calls (generateFlashcardsAI example_ai example_text 15) =
       [flashcard_prompt 15 example_text]"
proof -
  have blank: "body_inputType blank_request = Some (lit ''text'')"
    "body_textData blank_request = Some (lit ''   '')" "trim (lit ''   '') = []"
    by (simp_all add: blank_request_def text_request_def trim_def is_white_space_def lit_def)
  have filled: "body_inputType text_request = Some (lit ''text'')"
    "body_textData text_request = Some example_text"
    by (simp_all add: text_request_def)
  have count: "parseInt_or (body_maxCards text_request) 15 = 15"
    by (simp add: text_request_def parseInt_or_def show_optional_def parseInt_def trimStart_def
        is_white_space_def lit_def startsWith_def is_digit_def digit_value_def digits_value_def
        Let_def)
  have sent: "model_calls (generateFlashcardsAI example_ai example_text 15) =
       [flashcard_prompt 15 example_text]"
    by (simp add: run_defs example_defs model_calls_def)
  from C7_inline_text_passed_untrimmed
         [of example_env "lit ''   ''" blank_request example_ai] blank
  have "api_generate example_ai example_env blank_request =
     \<lparr>effects = [], http_status = 500, body = ErrorBody (lit ''Kein Text.'')\<rparr>"
    by simp
  moreover from C7_inline_text_passed_untrimmed
         [of example_env example_text text_request example_ai] filled example_text_not_blank
  have "effects (api_generate example_ai example_env text_request) =
       events (generateFlashcardsAI example_ai example_text 15)"
    by (simp add: count)
  ultimately show ?thesis using sent by simp
qed

section \<open>Plain-text uploads\<close>

























section \<open>The default count\<close>

lemma parseInt_examples:
  "parseInt (lit ''0'') = Some 0"
  "parseInt (lit ''  -0'') = Some 0"
  "parseInt (lit ''0x0'') = Some 0"
  "parseInt (lit ''abc'') = None"
  "parseInt (lit '''') = None"
  "parseInt (lit ''undefined'') = None"
  "parseInt (lit ''15'') = Some 15"
  "parseInt (lit ''  +42px'') = Some 42"
  "parseInt (lit ''-7.9'') = Some (- 7)"
  "parseInt (lit ''0x1F'') = Some 31"
  by (simp_all add: parseInt_def trimStart_def is_white_space_def lit_def startsWith_def
      is_digit_def digit_value_def digits_value_def Let_def)

text \<open>
  Claim C10. When the count field of a request is absent, does not parse as an integer,
  or parses to 0, the request is served exactly as the request for the default count (15
  cards, 5 questions), and the count the generator works with is that default, not the
  lower bound 3 of the clamp.
\<close>

theorem C10_falsy_count_gets_default:
  assumes "parseInt (show_optional (body_maxCards req)) = None \<or>
           parseInt (show_optional (body_maxCards req)) = Some 0"
    and "parseInt (show_optional (body_numQuestions req)) = None \<or>
         parseInt (show_optional (body_numQuestions req)) = Some 0"
  shows "api_generate w e req = api_generate w e (req\<lparr>body_maxCards := Some (lit ''15'')\<rparr>)
       \<and> max 3 (min 25 (parseInt_or (body_maxCards req) 15)) = 15
       \<and> api_generate_quiz w e req =
           api_generate_quiz w e (req\<lparr>body_numQuestions := Some (lit ''5'')\<rparr>)
       \<and> max 3 (min 15 (parseInt_or (body_numQuestions req) 5)) = 5"
proof -
  have "parseInt (lit ''15'') = Some 15" "parseInt (lit ''5'') = Some 5"
    by (simp_all add: parseInt_def trimStart_def is_white_space_def lit_def startsWith_def
      is_digit_def digit_value_def digits_value_def Let_def)
  then have fifteen: "parseInt_or (Some (lit ''15'')) 15 = 15" "parseInt_or (Some (lit ''5'')) 5 = 5"
    by (simp_all add: parseInt_or_def show_optional_def)
  have defaults: "parseInt_or (body_maxCards req) 15 = 15" "parseInt_or (body_numQuestions req) 5 = 5"
    using assms by (auto simp: parseInt_or_def)
  have "api_generate w e req = api_generate w e (req\<lparr>body_maxCards := Some (lit ''15'')\<rparr>)"
    by (simp add: api_generate_def select_input_def fifteen defaults)
  moreover have "api_generate_quiz w e req =
           api_generate_quiz w e (req\<lparr>body_numQuestions := Some (lit ''5'')\<rparr>)"
    by (simp add: api_generate_quiz_def select_input_def fifteen defaults)
  ultimately show ?thesis using defaults by simp
qed

lemma text_request_counts:
  "parseInt (show_optional (body_maxCards text_request)) = Some 0"
  "parseInt (show_optional (body_numQuestions text_request)) = None"
  by (simp_all add: text_request_def show_optional_def parseInt_def trimStart_def
      is_white_space_def lit_def startsWith_def is_digit_def digit_value_def digits_value_def
      Let_def)

lemma fifteen_cards_request:
  "body (api_generate example_ai example_env (text_request\<lparr>body_maxCards := Some (lit ''15'')\<rparr>)) =
     Flashcards [JNum 1, JNum 2, JNum 3, JNum 4]"
  by (simp add: api_generate_def select_input_def extractText_def parseInt_or_def
      show_optional_def parseInt_def trimStart_def startsWith_def is_digit_def digit_value_def
      digits_value_def text_request_def run_defs example_defs)

theorem C10_falsy_count_gets_default_witness:
  "body (api_generate example_ai example_env text_request) =
     Flashcards [JNum 1, JNum 2, JNum 3, JNum 4]
   \<and> max 3 (min 25 (parseInt_or (body_maxCards text_request) 15)) = 15
   \<and> max 3 (min 15 (parseInt_or (body_numQuestions text_request) 5)) = 5"
  using C10_falsy_count_gets_default [of text_request example_ai example_env]
    text_request_counts fifteen_cards_request
  by simp

end
